theory Spec2Isabelle
  imports Main
begin

section \<open>JavaScript values\<close>

text \<open>
  The values that flow through \<^verbatim>\<open>index.js\<close>: configuration fields, tokens, promise results
  and rejection reasons. Only flat values are modelled (no nested objects or arrays);
  a function value is identified by a number. Objects are association lists in
  insertion order, as JavaScript keeps the order of string keys.
\<close>

datatype jsval = Undefined | Null | Bool bool | Num int | Str string | Fun nat

type_synonym obj = "(string \<times> jsval) list"

text \<open>\<^verbatim>\<open>typeof v\<close>.\<close>

fun typeof :: "jsval \<Rightarrow> string" where
  "typeof Undefined = ''undefined''"
| "typeof Null = ''object''"
| "typeof (Bool b) = ''boolean''"
| "typeof (Num n) = ''number''"
| "typeof (Str s) = ''string''"
| "typeof (Fun f) = ''function''"

text \<open>Property read \<^verbatim>\<open>o.k\<close>: a missing property reads as \<^verbatim>\<open>undefined\<close>.\<close>

definition get_prop :: "obj \<Rightarrow> string \<Rightarrow> jsval" where
  "get_prop ob k = (case map_of ob k of None \<Rightarrow> Undefined | Some v \<Rightarrow> v)"

text \<open>Property write \<^verbatim>\<open>o.k = v\<close>: an existing key keeps its position, a new key goes last.\<close>

fun set_prop :: "obj \<Rightarrow> string \<Rightarrow> jsval \<Rightarrow> obj" where
  "set_prop [] k v = [(k, v)]"
| "set_prop ((k', v') # rest) k v =
     (if k' = k then (k, v) # rest else (k', v') # set_prop rest k v)"

text \<open>Object spread \<^verbatim>\<open>{ ...a, ...b }\<close>: the properties of \<open>b\<close> are written over \<open>a\<close> in order.\<close>

definition spread :: "obj \<Rightarrow> obj \<Rightarrow> obj" where
  "spread a b = fold (\<lambda>(k, v) acc. set_prop acc k v) b a"

section \<open>Email validation\<close>

text \<open>
  \<^verbatim>\<open>validateEmail\<close> tests a regular expression without back-references or look-around,
  anchored at both ends, so \<^verbatim>\<open>re.test\<close> is membership of the whole string in the regular
  language. Regular expressions are matched by derivatives. A \<open>char\<close> is read as the code
  point of the same number (U+0000 to U+00FF).
\<close>

datatype rx =
    Nothing
  | Empty
  | Class "char \<Rightarrow> bool"
  | Or rx rx
  | Then rx rx
  | Many rx

fun nullable :: "rx \<Rightarrow> bool" where
  "nullable Nothing = False"
| "nullable Empty = True"
| "nullable (Class p) = False"
| "nullable (Or r s) = (nullable r \<or> nullable s)"
| "nullable (Then r s) = (nullable r \<and> nullable s)"
| "nullable (Many r) = True"

fun deriv :: "char \<Rightarrow> rx \<Rightarrow> rx" where
  "deriv c Nothing = Nothing"
| "deriv c Empty = Nothing"
| "deriv c (Class p) = (if p c then Empty else Nothing)"
| "deriv c (Or r s) = Or (deriv c r) (deriv c s)"
| "deriv c (Then r s) =
     (if nullable r then Or (Then (deriv c r) s) (deriv c s) else Then (deriv c r) s)"
| "deriv c (Many r) = Then (deriv c r) (Many r)"

definition matches :: "rx \<Rightarrow> string \<Rightarrow> bool" where
  "matches r s = nullable (fold deriv s r)"

text \<open>
  What a match means: the language of an expression, against which the matcher is
  checked below.
\<close>

inductive_set star :: "string set \<Rightarrow> string set" for L :: "string set" where
  star_empty: "[] \<in> star L"
| star_step: "u \<in> L \<Longrightarrow> v \<in> star L \<Longrightarrow> u @ v \<in> star L"

fun lang :: "rx \<Rightarrow> string set" where
  "lang Nothing = {}"
| "lang Empty = {[]}"
| "lang (Class p) = {s. \<exists>c. s = [c] \<and> p c}"
| "lang (Or r s) = lang r \<union> lang s"
| "lang (Then r s) = {w. \<exists>u v. w = u @ v \<and> u \<in> lang r \<and> v \<in> lang s}"
| "lang (Many r) = star (lang r)"

text \<open>The quantifiers of the source's expression: \<^verbatim>\<open>r+\<close>, \<^verbatim>\<open>r{1,3}\<close>, \<^verbatim>\<open>r{2,}\<close>, and a literal.\<close>

definition some :: "rx \<Rightarrow> rx" where
  "some r = Then r (Many r)"

definition one_to_three :: "rx \<Rightarrow> rx" where
  "one_to_three r = Then r (Or Empty (Then r (Or Empty r)))"

definition two_or_more :: "rx \<Rightarrow> rx" where
  "two_or_more r = Then r (Then r (Many r))"

definition lit :: "char \<Rightarrow> rx" where
  "lit c = Class (\<lambda>x. x = c)"

text \<open>\<^verbatim>\<open>\s\<close>: tab, line feed, vertical tab, form feed, carriage return, space, no-break space.\<close>

definition is_space :: "char \<Rightarrow> bool" where
  "is_space c = (c \<in> set [CHR 0x09, CHR 0x0A, CHR 0x0B, CHR 0x0C, CHR 0x0D, CHR 0x20, CHR 0xA0])"

text \<open>\<^verbatim>\<open>[^<>()\[\]\\.,;:\s@"]\<close>\<close>

definition local_char :: "char \<Rightarrow> bool" where
  "local_char c =
     (c \<notin> set [CHR ''<'', CHR ''>'', CHR ''('', CHR '')'', CHR ''['', CHR '']'', CHR 0x5C,
                CHR ''.'', CHR '','', CHR '';'', CHR '':'', CHR ''@'', CHR 0x22]
      \<and> \<not> is_space c)"

text \<open>\<^verbatim>\<open>.\<close> matches everything but a line terminator.\<close>

definition any_char :: "char \<Rightarrow> bool" where
  "any_char c = (c \<notin> set [CHR 0x0A, CHR 0x0D])"

definition in_range :: "char \<Rightarrow> char \<Rightarrow> char \<Rightarrow> bool" where
  "in_range lo hi c = ((of_char lo :: nat) \<le> of_char c \<and> (of_char c :: nat) \<le> of_char hi)"

text \<open>\<^verbatim>\<open>[0-9]\<close>, \<^verbatim>\<open>[a-zA-Z\-0-9]\<close> and \<^verbatim>\<open>[a-zA-Z]\<close>.\<close>

definition digit :: "char \<Rightarrow> bool" where
  "digit c = in_range CHR ''0'' CHR ''9'' c"

definition letter :: "char \<Rightarrow> bool" where
  "letter c = (in_range CHR ''a'' CHR ''z'' c \<or> in_range CHR ''A'' CHR ''Z'' c)"

definition label_char :: "char \<Rightarrow> bool" where
  "label_char c = (letter c \<or> c = CHR ''-'' \<or> digit c)"

text \<open>
  The expression of \<^verbatim>\<open>validateEmail\<close>, part by part:
  \<^verbatim>\<open>(([^<>()\[\]\\.,;:\s@"]+(\.[^<>()\[\]\\.,;:\s@"]+)*)|(".+"))\<close> before the \<^verbatim>\<open>@\<close>, and
  \<^verbatim>\<open>((\[[0-9]{1,3}\.[0-9]{1,3}\.[0-9]{1,3}\.[0-9]{1,3}\])|(([a-zA-Z\-0-9]+\.)+[a-zA-Z]{2,}))\<close>
  after it.
\<close>

definition local_part :: rx where
  "local_part =
     Or (Then (some (Class local_char)) (Many (Then (lit CHR ''.'') (some (Class local_char)))))
        (Then (lit CHR 0x22) (Then (some (Class any_char)) (lit CHR 0x22)))"

definition ip_literal :: rx where
  "ip_literal =
     Then (lit CHR ''['')
    (Then (one_to_three (Class digit)) (Then (lit CHR ''.'')
    (Then (one_to_three (Class digit)) (Then (lit CHR ''.'')
    (Then (one_to_three (Class digit)) (Then (lit CHR ''.'')
    (Then (one_to_three (Class digit)) (lit CHR '']''))))))))"

definition domain_name :: rx where
  "domain_name =
     Then (some (Then (some (Class label_char)) (lit CHR ''.''))) (two_or_more (Class letter))"

definition email_re :: rx where
  "email_re = Then local_part (Then (lit CHR ''@'') (Or ip_literal domain_name))"

text \<open>\<^verbatim>\<open>String.prototype.toLowerCase\<close> on U+0000 to U+00FF.\<close>

definition lower_char :: "char \<Rightarrow> char" where
  "lower_char c =
     (if in_range CHR ''A'' CHR ''Z'' c \<or> (in_range CHR 0xC0 CHR 0xDE c \<and> c \<noteq> CHR 0xD7)
      then char_of (of_char c + (32 :: nat)) else c)"

definition toLowerCase :: "string \<Rightarrow> string" where
  "toLowerCase s = map lower_char s"

text \<open>\<^verbatim>\<open>validateEmail(email)\<close> for a string \<open>email\<close>: \<^verbatim>\<open>re.test(String(email).toLowerCase())\<close>.\<close>

definition validateEmail :: "string \<Rightarrow> bool" where
  "validateEmail email = matches email_re (toLowerCase email)"

section \<open>Promises\<close>

text \<open>
  A promise is described by the calls made to its \<^verbatim>\<open>resolve\<close> and \<^verbatim>\<open>reject\<close> functions, in
  order. The first call settles it and later calls have no effect; with no call it stays
  pending for ever.
\<close>

datatype settle = Resolve jsval | Reject jsval

datatype pstate = Pending | Fulfilled jsval | Rejected jsval

fun state_of :: "settle list \<Rightarrow> pstate" where
  "state_of [] = Pending"
| "state_of (Resolve v # rest) = Fulfilled v"
| "state_of (Reject v # rest) = Rejected v"

section \<open>The world of the module\<close>

text \<open>
  A notification or remote message as the module reads it: the fields \<^verbatim>\<open>_messageId\<close>,
  \<^verbatim>\<open>_notificationId\<close>, \<^verbatim>\<open>title\<close>, \<^verbatim>\<open>body\<close>, \<^verbatim>\<open>data\<close> and \<^verbatim>\<open>_data\<close>. \<open>None\<close> in the last two
  stands for \<^verbatim>\<open>undefined\<close>, on which a property read throws.
\<close>

record notification =
  n_messageId :: jsval
  n_notificationId :: jsval
  n_title :: jsval
  n_body :: jsval
  n_data :: "obj option"
  n_raw_data :: "obj option"

record notification_open =
  no_action :: jsval
  no_notification :: notification

text \<open>The notification built by \<^verbatim>\<open>displayLocalNotification\<close> and handed to the library.\<close>

record local_notification =
  ln_show_in_foreground :: bool
  ln_notificationId :: jsval
  ln_title :: jsval
  ln_body :: jsval
  ln_data :: "obj option"
  ln_sound :: jsval
  ln_bigPicture :: jsval
  ln_channelId :: string
  ln_smallIcon :: string
  ln_color :: string
  ln_priority :: string
  ln_vibrate :: int

datatype listener =
  NotificationOpened | NotificationDisplayed | NotificationReceived | Message | TokenRefresh

datatype logarg =
  LVal jsval | LObj obj | LNote notification | LOpen "notification_open option"

text \<open>
  What the module does to the outside, in the order it does it: \<^verbatim>\<open>fetch\<close> (method, URL,
  headers, JSON body), \<^verbatim>\<open>console.log\<close>, a call of a user function with its argument, and
  the calls into the push library. One call of the module is followed until nothing of it
  is left to run, with no other call in between; work that nobody awaits is done where
  it is started.
\<close>

datatype event =
    Fetch string string obj obj
  | Console "logarg list"
  | Callback nat "obj option"
  | RemoveDelivered jsval
  | CreateChannelGroup string string string
  | CreateChannel string string string
  | DisplayNotification local_notification
  | FirebaseGetToken
  | DeleteToken
  | Attach listener

text \<open>
  \<^verbatim>\<open>AsyncStorage\<close> holds three entries: \<^verbatim>\<open>'config'\<close>, \<^verbatim>\<open>'fcmToken'\<close> and \<^verbatim>\<open>'isSubscribed'\<close>.
  \<open>None\<close> is a missing key, which \<^verbatim>\<open>getItem\<close> reads as \<^verbatim>\<open>null\<close>. The entry \<^verbatim>\<open>'config'\<close> is
  JSON text written by \<^verbatim>\<open>JSON.stringify\<close>; it is kept as the object that \<^verbatim>\<open>JSON.parse\<close>
  gives back. The store is reliable: its promises always fulfil, \<^verbatim>\<open>setItem\<close> with \<^verbatim>\<open>null\<close>.
\<close>

record storage =
  item_config :: "obj option"
  item_fcmToken :: "string option"
  item_isSubscribed :: "string option"

text \<open>The private field \<^verbatim>\<open>#config\<close>, the store, and the effects so far.\<close>

record world =
  config :: obj
  store :: storage
  trace :: "event list"

record device =
  uniqueId :: jsval
  brand :: jsval
  model :: jsval
  deviceId :: jsval
  systemVersion :: jsval

text \<open>
  What the collaborators answer during one call of the module: \<^verbatim>\<open>Platform.OS\<close>, the token
  of \<^verbatim>\<open>firebase.messaging().getToken()\<close> (\<open>None\<close> is \<^verbatim>\<open>null\<close>), the result of
  \<^verbatim>\<open>getInitialNotification()\<close>, and the outcome of each library promise the source puts a
  handler on (\<open>Inl\<close> the rejection reason): channel creation, \<^verbatim>\<open>deleteToken\<close>, the
  \<^verbatim>\<open>DeviceInfo\<close> getters, \<^verbatim>\<open>fetch\<close> followed by \<^verbatim>\<open>res.json()\<close>, \<^verbatim>\<open>displayNotification\<close>; and
  \<^verbatim>\<open>Date.now()\<close>. Library promises without a handler in the source always fulfil.
\<close>

record env =
  platformOS :: string
  firebaseToken :: "string option"
  initialNotification :: "notification_open option"
  channelCreated :: bool
  tokenDeleted :: "jsval + unit"
  deviceInfo :: "jsval + device"
  httpResult :: "jsval + jsval"
  displayed :: "jsval + unit"
  nowMs :: int

definition emit :: "event \<Rightarrow> world \<Rightarrow> world" where
  "emit ev w = w\<lparr>trace := trace w @ [ev]\<rparr>"

definition console_log :: "logarg list \<Rightarrow> world \<Rightarrow> world" where
  "console_log args w = emit (Console args) w"

text \<open>
  \<^verbatim>\<open>JSON.stringify\<close> of an object with flat values leaves out the properties whose value is
  \<^verbatim>\<open>undefined\<close> or a function.
\<close>

definition JSON_stringify :: "obj \<Rightarrow> obj" where
  "JSON_stringify ob =
     filter (\<lambda>(k, v). typeof v \<noteq> ''undefined'' \<and> typeof v \<noteq> ''function'') ob"

text \<open>A string or \<^verbatim>\<open>null\<close> as a value, and the string when it is truthy (not \<^verbatim>\<open>null\<close>, not empty).\<close>

definition str_or_null :: "string option \<Rightarrow> jsval" where
  "str_or_null t = (case t of None \<Rightarrow> Null | Some s \<Rightarrow> Str s)"

definition truthy :: "string option \<Rightarrow> string option" where
  "truthy t = (case t of None \<Rightarrow> None | Some s \<Rightarrow> (if s = [] then None else Some s))"

definition default_config :: obj where
  "default_config =
     [(''apiKey'', Str []), (''userEmail'', Str []), (''bundleId'', Str []),
      (''callbackAfterTap'', Fun 0)]"

text \<open>A fresh instance: the default \<^verbatim>\<open>#config\<close>, an empty store, nothing done yet.\<close>

definition fresh :: world where
  "fresh = \<lparr>config = default_config,
            store = \<lparr>item_config = None, item_fcmToken = None, item_isSubscribed = None\<rparr>,
            trace = []\<rparr>"

section \<open>Configuration\<close>

text \<open>
  \<^verbatim>\<open>typeof e !== 'string' || (e.length > 0 && !this.validateEmail(e))\<close>, the test of both
  \<^verbatim>\<open>checkParams\<close> and \<^verbatim>\<open>setEmail\<close>.
\<close>

definition email_rejected :: "jsval \<Rightarrow> bool" where
  "email_rejected e = (case e of Str s \<Rightarrow> 0 < length s \<and> \<not> validateEmail s | _ \<Rightarrow> True)"

text \<open>
  \<^verbatim>\<open>checkParams\<close>: the executor runs to its end whatever the checks say, so every failed
  check calls \<^verbatim>\<open>reject\<close>, the configuration is written to the store, and \<^verbatim>\<open>resolve\<close> is
  called with the result of \<^verbatim>\<open>setItem\<close>. The third check tests \<^verbatim>\<open>apiKey\<close> again, as the
  source does.
\<close>

definition checkParams :: "world \<Rightarrow> obj \<Rightarrow> world \<times> settle list" where
  "checkParams w cfg =
     (let merged = spread (config w) cfg;
          w1 = w\<lparr>config := merged\<rparr>;
          r1 = (if typeof (get_prop merged ''apiKey'') \<noteq> ''string''
                then [Reject (Str ''Key must be string'')] else []);
          r2 = (if email_rejected (get_prop merged ''userEmail'')
                then [Reject (Str ''Email must be valid'')] else []);
          r3 = (if typeof (get_prop merged ''apiKey'') \<noteq> ''string''
                then [Reject (Str ''Bundle ID must be string'')] else []);
          r4 = (if typeof (get_prop merged ''callbackAfterTap'') \<noteq> ''function''
                then [Reject (Str ''Callback must be function'')] else []);
          w2 = w1\<lparr>store := (store w1)\<lparr>item_config := Some (JSON_stringify merged)\<rparr>\<rparr>
      in (w2, r1 @ r2 @ r3 @ r4 @ [Resolve Null]))"

definition setEmail :: "world \<Rightarrow> jsval \<Rightarrow> world \<times> settle list" where
  "setEmail w email =
     (let r1 = (if email_rejected email then [Reject (Str ''Email must be valid'')] else []);
          w1 = w\<lparr>config := set_prop (config w) ''userEmail'' email\<rparr>;
          w2 = w1\<lparr>store := (store w1)\<lparr>item_config := Some (JSON_stringify (config w1))\<rparr>\<rparr>
      in (w2, r1 @ [Resolve Null]))"

section \<open>Requests and telemetry\<close>

definition getDeviceInfo :: "env \<Rightarrow> jsval + obj" where
  "getDeviceInfo e =
     (case deviceInfo e of
        Inl err \<Rightarrow> Inl err
      | Inr d \<Rightarrow>
          Inr [(''deviceOs'', Str (platformOS e)), (''deviceUniqueId'', uniqueId d),
               (''deviceBrand'', brand d), (''deviceModel'', model d),
               (''deviceId'', deviceId d), (''deviceOsVersion'', systemVersion d)])"

definition sendRequest ::
  "world \<Rightarrow> env \<Rightarrow> string \<Rightarrow> obj \<Rightarrow> obj \<Rightarrow> string \<Rightarrow> world \<times> settle list" where
  "sendRequest w e url headers body method =
     (emit (Fetch method url
              (spread [(''Accept'', Str ''application/json''),
                       (''Content-Type'', Str ''application/json'')] headers)
              (JSON_stringify body)) w,
      case httpResult e of Inl err \<Rightarrow> [Reject err] | Inr json \<Rightarrow> [Resolve json])"

definition register_url :: string where
  "register_url = ''https://push.setrowid.com/mobile/v1/register.php''"

definition update_url :: string where
  "update_url = ''https://push.setrowid.com/mobile/v1/update.php''"

definition delete_url :: string where
  "delete_url = ''https://push.setrowid.com/mobile/v1/delete.php''"

definition log_url :: string where
  "log_url = ''https://push.setrowid.com/mobile/v1/log.php''"

text \<open>
  \<^verbatim>\<open>sendLog\<close> is an \<^verbatim>\<open>async\<close> function that no caller awaits: a \<^verbatim>\<open>TypeError\<close> in it (a property
  read on an \<^verbatim>\<open>undefined\<close> \<^verbatim>\<open>_data\<close> or \<^verbatim>\<open>data\<close>, or on the \<^verbatim>\<open>null\<close> that \<^verbatim>\<open>JSON.parse\<close> gives for
  a missing \<^verbatim>\<open>'config'\<close>) ends it without a request. It is run to completion where it is
  called. \<open>sendLog_body\<close> is the request body it builds, \<open>sendLog_post\<close> its last three
  lines: the log of the body, the request, and the log of the response.
\<close>

definition sendLog_body ::
  "world \<Rightarrow> env \<Rightarrow> string \<Rightarrow> obj \<Rightarrow> obj \<Rightarrow> obj \<Rightarrow> obj \<Rightarrow> obj" where
  "sendLog_body w e eventType rd d localConfig customParam =
     (let sendId = (if typeof (get_prop rd ''sendId'') \<noteq> ''undefined''
                    then get_prop rd ''sendId'' else Num 0);
          tag = (if typeof (get_prop d ''tag'') \<noteq> ''undefined''
                 then get_prop d ''tag'' else Str []);
          locaFcmToken = str_or_null (item_fcmToken (store w));
          reqBody = spread [(''apiKey'', get_prop localConfig ''apiKey''),
                            (''fcmToken'', locaFcmToken),
                            (''event'', Str eventType),
                            (''sendId'', sendId),
                            (''tag'', tag),
                            (''os'', Str (platformOS e))] customParam
      in if eventType = ''display''
         then set_prop reqBody ''displayedAt'' (Num (nowMs e div 1000))
         else if eventType = ''tap''
         then set_prop reqBody ''tappedAt'' (Num (nowMs e div 1000))
         else reqBody)"

definition sendLog_post :: "world \<Rightarrow> env \<Rightarrow> obj \<Rightarrow> world" where
  "sendLog_post w e reqBody =
     (let w1 = console_log [LVal (Str ''Log body:''), LObj reqBody] w;
          (w2, r) = sendRequest w1 e log_url [] reqBody ''POST''
      in case state_of r of Fulfilled res \<Rightarrow> console_log [LVal res] w2 | _ \<Rightarrow> w2)"

definition sendLog :: "world \<Rightarrow> env \<Rightarrow> string \<Rightarrow> notification \<Rightarrow> obj \<Rightarrow> world" where
  "sendLog w e eventType n customParam =
     (case n_raw_data n of
        None \<Rightarrow> w
      | Some rd \<Rightarrow>
     (case n_data n of
        None \<Rightarrow> w
      | Some d \<Rightarrow>
     (case item_config (store w) of
        None \<Rightarrow> w
      | Some localConfig \<Rightarrow>
          sendLog_post w e (sendLog_body w e eventType rd d localConfig customParam))))"

section \<open>Channels\<close>

text \<open>
  \<^verbatim>\<open>createAndroidChannel\<close>: on a platform that is neither \<^verbatim>\<open>'android'\<close> nor \<^verbatim>\<open>'ios'\<close> no branch
  calls \<^verbatim>\<open>resolve\<close> or \<^verbatim>\<open>reject\<close>.
\<close>

definition createAndroidChannel :: "world \<Rightarrow> env \<Rightarrow> bool \<Rightarrow> world \<times> settle list" where
  "createAndroidChannel w e createChannelGroup =
     (if platformOS e = ''android'' then
        (if createChannelGroup then
           (let w1 = emit (CreateChannelGroup ''push'' ''Push'' ''Max'') w in
            if channelCreated e
            then (console_log [LVal (Str ''Android channel group created.'')] w1,
                  [Resolve Undefined])
            else (w1, [Reject (Str ''Error when creating channel'')]))
         else
           (let w1 = emit (CreateChannel ''push'' ''Push'' ''Max'') w in
            if channelCreated e
            then (console_log [LVal (Str ''Android channel created.'')] w1,
                  [Resolve Undefined])
            else (w1, [Reject (Str ''Error when creating channel'')])))
      else if platformOS e = ''ios'' then (w, [Resolve Undefined])
      else (w, []))"

section \<open>Tokens\<close>

text \<open>
  \<^verbatim>\<open>getToken\<close>. The executor is \<^verbatim>\<open>async\<close>: when the awaited \<^verbatim>\<open>getDeviceInfo\<close> promise rejects,
  the executor throws after the promise was created, so neither \<^verbatim>\<open>resolve\<close> nor \<^verbatim>\<open>reject\<close> is
  called. The registration request is not awaited; its response is logged when it
  arrives.
\<close>

definition getToken :: "world \<Rightarrow> env \<Rightarrow> world \<times> settle list" where
  "getToken w e =
     (let w1 = w\<lparr>store := (store w)\<lparr>item_isSubscribed := Some ''true''\<rparr>\<rparr> in
      case truthy (item_fcmToken (store w1)) of
        Some fcmToken \<Rightarrow>
          (console_log [LVal (Str ''Token exists in local storage'')] w1,
           [Resolve (Str fcmToken)])
      | None \<Rightarrow>
          (let w2 = emit FirebaseGetToken w1 in
           case truthy (firebaseToken e) of
             None \<Rightarrow> (w2, [Reject (Bool False)])
           | Some fcmToken \<Rightarrow>
               (let w3 = w2\<lparr>store := (store w2)\<lparr>item_fcmToken := Some fcmToken\<rparr>\<rparr> in
                case getDeviceInfo e of
                  Inl err \<Rightarrow> (w3, [])
                | Inr info \<Rightarrow>
                    (let reqBody = spread [(''apiKey'', get_prop (config w3) ''apiKey''),
                                           (''email'', get_prop (config w3) ''userEmail''),
                                           (''fcmToken'', Str fcmToken)] info;
                         (w4, r) = sendRequest w3 e register_url [] reqBody ''POST'';
                         w5 = console_log [LVal (Str ''Getting new token...'')] w4;
                         w6 = (case state_of r of
                                 Fulfilled res \<Rightarrow> console_log [LVal res] w5
                               | _ \<Rightarrow> w5)
                     in (w6, [Resolve (Str fcmToken)])))))"

text \<open>
  The callback that \<^verbatim>\<open>onTokenRefreshListener\<close> hands to \<^verbatim>\<open>firebase.messaging().onTokenRefresh\<close>,
  run on a new token.
\<close>

definition onTokenRefresh :: "world \<Rightarrow> env \<Rightarrow> string \<Rightarrow> world" where
  "onTokenRefresh w e newFcmToken =
     (if item_isSubscribed (store w) = Some ''true'' then
        (let oldFcmToken = item_fcmToken (store w) in
         if oldFcmToken \<noteq> Some newFcmToken then
           (let w1 = w\<lparr>store := (store w)\<lparr>item_fcmToken := Some newFcmToken\<rparr>\<rparr> in
            case getDeviceInfo e of
              Inl err \<Rightarrow> w1
            | Inr info \<Rightarrow>
                (let reqBody = spread [(''apiKey'', get_prop (config w1) ''apiKey''),
                                       (''oldFcmToken'', str_or_null oldFcmToken),
                                       (''newFcmToken'', Str newFcmToken)] info
                 in fst (sendRequest w1 e update_url [] reqBody ''PATCH'')))
         else w)
      else w)"

text \<open>
  \<^verbatim>\<open>unsubscribe\<close>: the chain after \<^verbatim>\<open>deleteToken()\<close> runs only when that promise fulfils; a
  rejection goes to the \<^verbatim>\<open>catch\<close> at its end.
\<close>

definition unsubscribe :: "world \<Rightarrow> env \<Rightarrow> world \<times> settle list" where
  "unsubscribe w e =
     (let fcmTokenToDelete = item_fcmToken (store w);
          w1 = emit DeleteToken w in
      case tokenDeleted e of
        Inl err \<Rightarrow> (w1, [Reject err])
      | Inr u \<Rightarrow>
          (let w2 = w1\<lparr>store := (store w1)\<lparr>item_fcmToken := None\<rparr>\<rparr>;
               w3 = w2\<lparr>store := (store w2)\<lparr>item_isSubscribed := Some ''false''\<rparr>\<rparr> in
           case truthy fcmTokenToDelete of
             Some t \<Rightarrow>
               (let reqBody = [(''apiKey'', get_prop (config w3) ''apiKey''),
                               (''fcmToken'', Str t)];
                    (w4, r) = sendRequest w3 e delete_url [] reqBody ''DELETE''
                in case state_of r of
                     Fulfilled res \<Rightarrow> (console_log [LVal res] w4, [Resolve Undefined])
                   | Rejected err \<Rightarrow> (w4, [Reject err])
                   | Pending \<Rightarrow> (w4, []))
           | None \<Rightarrow>
               (console_log
                  [LVal (Str ''fcmToken not found in local storage when unsubscribing'')] w3,
                [Resolve Undefined])))"

definition checkIfSubscribed :: "world \<Rightarrow> bool" where
  "checkIfSubscribed w = (item_isSubscribed (store w) = Some ''true'')"

section \<open>Notifications\<close>

text \<open>
  \<^verbatim>\<open>checkIfOpenedByNotification\<close>. Calling a \<^verbatim>\<open>callbackAfterTap\<close> that is not a function throws
  inside the \<^verbatim>\<open>async\<close> executor, which leaves the promise pending. A user function is taken
  to return normally.
\<close>

definition checkIfOpenedByNotification :: "world \<Rightarrow> env \<Rightarrow> world \<times> settle list" where
  "checkIfOpenedByNotification w e =
     (case initialNotification e of
        Some notificationOpen \<Rightarrow>
          (let w1 = console_log
                      [LVal (Str ''App is opened because of notification interaction'')] w;
               notification = no_notification notificationOpen;
               w2 = emit (RemoveDelivered (n_notificationId notification)) w1 in
           case get_prop (config w2) ''callbackAfterTap'' of
             Fun f \<Rightarrow>
               (let w3 = emit (Callback f (n_data notification)) w2;
                    w4 = sendLog w3 e ''tap'' notification [(''initial'', Bool True)]
                in (w4, [Resolve Undefined]))
           | _ \<Rightarrow> (w2, []))
      | None \<Rightarrow>
          (console_log [LVal (Str ''Not opened by notification''), LOpen None] w,
           [Resolve Undefined]))"

text \<open>
  \<^verbatim>\<open>displayLocalNotification\<close> returns nothing; its work is the \<^verbatim>\<open>then\<close> callback on
  \<^verbatim>\<open>createAndroidChannel()\<close>, which runs only when that promise fulfils. The callback reads
  \<^verbatim>\<open>notification.data.sound\<close> in both branches, so an \<^verbatim>\<open>undefined\<close> \<^verbatim>\<open>data\<close> ends it.
\<close>

definition displayLocalNotification ::
  "world \<Rightarrow> env \<Rightarrow> notification \<Rightarrow> bool \<Rightarrow> world" where
  "displayLocalNotification w e notification dataOnly =
     (let (w1, r) = createAndroidChannel w e False in
      case state_of r of
        Fulfilled u \<Rightarrow>
          (case n_data notification of
             None \<Rightarrow> w1
           | Some d \<Rightarrow>
               (let notID = (if dataOnly then n_messageId notification
                             else n_notificationId notification);
                    title = (if dataOnly then get_prop d ''title'' else n_title notification);
                    body = (if dataOnly then get_prop d ''body'' else n_body notification);
                    localNotification =
                      \<lparr>ln_show_in_foreground = True,
                       ln_notificationId = notID,
                       ln_title = title,
                       ln_body = body,
                       ln_data = n_raw_data notification,
                       ln_sound = get_prop d ''sound'',
                       ln_bigPicture = get_prop d ''image'',
                       ln_channelId = ''push'',
                       ln_smallIcon = ''ic_notification'',
                       ln_color = ''#00FF00'',
                       ln_priority = ''Max'',
                       ln_vibrate = 1000\<rparr>;
                    w2 = emit (DisplayNotification localNotification) w1
                in case displayed e of
                     Inr ok \<Rightarrow>
                       (let w3 = (if platformOS e = ''android''
                                  then sendLog w2 e ''display'' notification [] else w2)
                        in console_log [LVal (Str ''Local notification has been displayed'')] w3)
                   | Inl err \<Rightarrow> console_log [LVal err] w2))
      | _ \<Rightarrow> w1)"

text \<open>
  The exported \<^verbatim>\<open>backgroundMessaging\<close>: it copies \<^verbatim>\<open>data\<close> into \<^verbatim>\<open>_data\<close> and renders with
  \<^verbatim>\<open>dataOnly\<close> set.
\<close>

definition backgroundMessaging :: "world \<Rightarrow> env \<Rightarrow> notification \<Rightarrow> world \<times> settle list" where
  "backgroundMessaging w e message =
     (let w1 = console_log [LNote message] w;
          message' = message\<lparr>n_raw_data := n_data message\<rparr>
      in (displayLocalNotification w1 e message' True, [Resolve Undefined]))"

section \<open>Initialisation\<close>

definition createListeners :: "world \<Rightarrow> world" where
  "createListeners w =
     emit (Attach TokenRefresh)
       (emit (Attach Message)
         (emit (Attach NotificationReceived)
           (emit (Attach NotificationDisplayed)
             (emit (Attach NotificationOpened) w))))"

text \<open>
  \<^verbatim>\<open>p.then(k)\<close> for the chains of \<^verbatim>\<open>init\<close>: \<open>k\<close> runs when \<open>p\<close> fulfils, a rejection is
  passed on, and nothing happens while \<open>p\<close> is pending.
\<close>

definition and_then ::
  "world \<times> settle list \<Rightarrow> (world \<Rightarrow> world \<times> settle list) \<Rightarrow> world \<times> settle list" where
  "and_then p k =
     (case state_of (snd p) of
        Fulfilled v \<Rightarrow> k (fst p)
      | Rejected err \<Rightarrow> (fst p, [Reject err])
      | Pending \<Rightarrow> (fst p, []))"

text \<open>
  \<^verbatim>\<open>init\<close>: the last \<^verbatim>\<open>then\<close> resolves the returned promise and the \<^verbatim>\<open>catch\<close> rejects it with
  the reason that came down the chain.
\<close>

definition init :: "world \<Rightarrow> env \<Rightarrow> obj \<Rightarrow> world \<times> settle list" where
  "init w e cfg =
     and_then
       (and_then
         (and_then
           (and_then (checkParams w cfg)
             (\<lambda>w1. checkIfOpenedByNotification w1 e))
           (\<lambda>w2. createAndroidChannel w2 e True))
         (\<lambda>w3. (createListeners w3, [Resolve Undefined])))
       (\<lambda>w4. (w4, [Resolve Undefined]))"

section \<open>Observations\<close>

text \<open>The requests, user callbacks, displayed notifications and attached listeners of a trace.\<close>

fun is_fetch :: "event \<Rightarrow> bool" where
  "is_fetch (Fetch m u h b) = True"
| "is_fetch ev = False"

fun is_callback :: "event \<Rightarrow> bool" where
  "is_callback (Callback f a) = True"
| "is_callback ev = False"

fun is_display :: "event \<Rightarrow> bool" where
  "is_display (DisplayNotification ln) = True"
| "is_display ev = False"

fun is_attach :: "event \<Rightarrow> bool" where
  "is_attach (Attach l) = True"
| "is_attach ev = False"

definition requests :: "world \<Rightarrow> event list" where
  "requests w = filter is_fetch (trace w)"

definition callbacks :: "world \<Rightarrow> event list" where
  "callbacks w = filter is_callback (trace w)"

definition displays :: "world \<Rightarrow> event list" where
  "displays w = filter is_display (trace w)"

definition attached :: "world \<Rightarrow> event list" where
  "attached w = filter is_attach (trace w)"

section \<open>Sample inputs\<close>

definition device1 :: device where
  "device1 = \<lparr>uniqueId = Str ''u1'', brand = Str ''acme'', model = Str ''m1'',
              deviceId = Str ''d1'', systemVersion = Str ''10''\<rparr>"

text \<open>An Android device on which every collaborator succeeds and no notification started the app.\<close>

definition env1 :: env where
  "env1 = \<lparr>platformOS = ''android'', firebaseToken = Some ''tok'', initialNotification = None,
           channelCreated = True, tokenDeleted = Inr (), deviceInfo = Inr device1,
           httpResult = Inr Null, displayed = Inr (), nowMs = 5000\<rparr>"

text \<open>The same device when the push library has no token to give.\<close>

definition env_no_token :: env where
  "env_no_token = env1\<lparr>firebaseToken := None\<rparr>"

text \<open>A platform that is neither Android nor iOS.\<close>

definition env_web :: env where
  "env_web = env1\<lparr>platformOS := ''web''\<rparr>"

text \<open>No token to give, and \<^verbatim>\<open>deleteToken()\<close> fails.\<close>

definition env_delete_fails :: env where
  "env_delete_fails = env_no_token\<lparr>tokenDeleted := Inl (Str ''SERVICE_NOT_AVAILABLE'')\<rparr>"

text \<open>A data-only message as the background task receives it.\<close>

definition message1 :: notification where
  "message1 = \<lparr>n_messageId = Str ''m1'', n_notificationId = Undefined,
                n_title = Undefined, n_body = Undefined,
                n_data = Some [(''title'', Str ''Sale''), (''body'', Str ''Today only'')],
                n_raw_data = None\<rparr>"

text \<open>A notification whose tap started the app, and the start it belongs to.\<close>

definition note1 :: notification where
  "note1 = \<lparr>n_messageId = Undefined, n_notificationId = Str ''n1'',
             n_title = Str ''Sale'', n_body = Str ''Today only'',
             n_data = Some [(''sendId'', Num 7), (''tag'', Str ''promo'')],
             n_raw_data = Some [(''sendId'', Num 7), (''tag'', Str ''promo'')]\<rparr>"

definition env_cold :: env where
  "env_cold = env1\<lparr>initialNotification :=
                      Some \<lparr>no_action = Str ''default'', no_notification = note1\<rparr>\<rparr>"

text \<open>A configuration that passes every check.\<close>

definition cfg1 :: obj where
  "cfg1 = [(''apiKey'', Str ''key''), (''callbackAfterTap'', Fun 1)]"

section \<open>Properties\<close>

subsection \<open>The matcher decides the language\<close>

lemma nullable_lang: "nullable r = ([] \<in> lang r)"
  by (induction r) (auto intro: star_empty)

lemma star_head:
  assumes "x \<in> star L" and "x = c # w"
  shows "\<exists>u v. w = u @ v \<and> c # u \<in> L \<and> v \<in> star L"
  using assms
proof (induction arbitrary: w)
  case star_empty
  then show ?case by simp
next
  case (star_step u v)
  show ?case
  proof (cases u)
    case Nil
    with star_step show ?thesis by simp
  next
    case (Cons a u')
    with star_step(1,2,4) show ?thesis by auto
  qed
qed

lemma star_cons: "(c # w \<in> star L) = (\<exists>u v. w = u @ v \<and> c # u \<in> L \<and> v \<in> star L)"
proof
  assume "c # w \<in> star L"
  then show "\<exists>u v. w = u @ v \<and> c # u \<in> L \<and> v \<in> star L"
    by (rule star_head) simp
next
  assume "\<exists>u v. w = u @ v \<and> c # u \<in> L \<and> v \<in> star L"
  then obtain u v where "w = u @ v" "c # u \<in> L" "v \<in> star L"
    by blast
  then show "c # w \<in> star L"
    using star_step [of "c # u" L v] by simp
qed

lemma deriv_lang: "(w \<in> lang (deriv c r)) = (c # w \<in> lang r)"
proof (induction r arbitrary: w)
  case (Then r s)
  show ?case
    by (auto simp add: Then nullable_lang Cons_eq_append_conv)
next
  case (Many r)
  show ?case
    by (simp add: Many star_cons)
qed auto

lemma matches_lang: "matches r s = (s \<in> lang r)"
  unfolding matches_def
  by (induction s arbitrary: r) (simp_all add: nullable_lang deriv_lang)

lemma validateEmail_lang: "validateEmail email = (toLowerCase email \<in> lang email_re)"
  by (simp add: validateEmail_def matches_lang)

subsection \<open>Email addresses\<close>

text \<open>
  C7: the email validation function returns true for the address \<^verbatim>\<open>a@b.com\<close> and false for
  the malformed inputs \<^verbatim>\<open>a@@b\<close> and \<^verbatim>\<open>a b@c.com\<close>.
\<close>

theorem validateEmail_examples:
  "validateEmail ''a@b.com'' = True
   \<and> validateEmail ''a@@b'' = False
   \<and> validateEmail ''a b@c.com'' = False"
  by code_simp

subsection \<open>Facts about \<^verbatim>\<open>getToken\<close>\<close>

lemma getToken_cached:
  "truthy (item_fcmToken (store w)) = Some t \<Longrightarrow>
   getToken w e =
     (console_log [LVal (Str ''Token exists in local storage'')]
        (w\<lparr>store := (store w)\<lparr>item_isSubscribed := Some ''true''\<rparr>\<rparr>),
      [Resolve (Str t)])"
  by (simp add: getToken_def)

lemma getToken_subscribed:
  "item_isSubscribed (store (fst (getToken w e))) = Some ''true''"
  by (simp add: getToken_def Let_def console_log_def emit_def sendRequest_def
      split: option.splits sum.splits pstate.splits prod.splits)

lemma getToken_fulfilled_cached:
  "state_of (snd (getToken w e)) = Fulfilled v \<Longrightarrow>
   truthy (item_fcmToken (store (fst (getToken w e)))) = Some t \<Longrightarrow> v = Str t"
  by (simp add: getToken_def Let_def console_log_def emit_def sendRequest_def truthy_def
      split: option.splits sum.splits pstate.splits prod.splits if_splits)

text \<open>
  C1: when the first of two \<^verbatim>\<open>getToken\<close> calls leaves a token in the cache, the second call
  resolves with that cached token (the value the first call resolved with, if it
  resolved), and issues no request: all it adds to the trace is the log line of the
  cached branch, so the new-token branch with its \<^verbatim>\<open>register.php\<close> request did not run.
  The first call too sends a request only when it found the cache empty.
\<close>

theorem getToken_twice:
  "w1 = fst (getToken w e1) \<Longrightarrow> truthy (item_fcmToken (store w1)) = Some t \<Longrightarrow>
     snd (getToken w1 e2) = [Resolve (Str t)]
   \<and> (\<forall>v. state_of (snd (getToken w e1)) = Fulfilled v \<longrightarrow> v = Str t)
   \<and> trace (fst (getToken w1 e2)) =
       trace w1 @ [Console [LVal (Str ''Token exists in local storage'')]]
   \<and> requests (fst (getToken w1 e2)) = requests w1
   \<and> store (fst (getToken w1 e2)) = store w1
   \<and> (truthy (item_fcmToken (store w)) \<noteq> None \<longrightarrow> requests w1 = requests w)"
proof -
  assume w1: "w1 = fst (getToken w e1)" and t: "truthy (item_fcmToken (store w1)) = Some t"
  have sub: "item_isSubscribed (store w1) = Some ''true''"
    unfolding w1 by (rule getToken_subscribed)
  have "(store w1)\<lparr>item_isSubscribed := Some ''true''\<rparr> = store w1"
    using sub by simp
  then have same: "w1\<lparr>store := (store w1)\<lparr>item_isSubscribed := Some ''true''\<rparr>\<rparr> = w1"
    by simp
  have call: "getToken w1 e2 =
      (console_log [LVal (Str ''Token exists in local storage'')] w1, [Resolve (Str t)])"
    using getToken_cached [OF t, of e2] same by simp
  have first: "\<forall>v. state_of (snd (getToken w e1)) = Fulfilled v \<longrightarrow> v = Str t"
    using getToken_fulfilled_cached [of w e1 _ t] t w1 by blast
  have only: "truthy (item_fcmToken (store w)) \<noteq> None \<longrightarrow> requests w1 = requests w"
    by (auto simp add: w1 getToken_cached console_log_def emit_def requests_def)
  show ?thesis
    using first only by (simp add: call console_log_def emit_def requests_def)
qed

theorem getToken_twice_witness:
  "truthy (item_fcmToken (store (fst (getToken fresh env1)))) = Some ''tok''
   \<and> snd (getToken (fst (getToken fresh env1)) env1) = [Resolve (Str ''tok'')]
   \<and> state_of (snd (getToken fresh env1)) = Fulfilled (Str ''tok'')
   \<and> requests (fst (getToken (fst (getToken fresh env1)) env1)) =
       requests (fst (getToken fresh env1))"
proof -
  have t: "truthy (item_fcmToken (store (fst (getToken fresh env1)))) = Some ''tok''"
    by (simp add: getToken_def fresh_def env1_def truthy_def getDeviceInfo_def device1_def
        sendRequest_def Let_def console_log_def emit_def)
  have r: "state_of (snd (getToken fresh env1)) = Fulfilled (Str ''tok'')"
    by (simp add: getToken_def fresh_def env1_def truthy_def getDeviceInfo_def device1_def
        sendRequest_def Let_def console_log_def emit_def)
  show ?thesis
    using getToken_twice [OF refl t, of env1] t r by simp
qed

text \<open>
  C9: every call of \<^verbatim>\<open>getToken\<close> leaves the persisted \<^verbatim>\<open>isSubscribed\<close> flag at \<^verbatim>\<open>'true'\<close>, whatever
  the cache and the push library hold, so \<^verbatim>\<open>checkIfSubscribed\<close> answers true afterwards.
  The flag is written before anything else: the call does what it would do had the flag
  been \<^verbatim>\<open>'true'\<close> from the start. This includes the call that rejects with \<^verbatim>\<open>false\<close> because
  the cache is empty and the library returned no token: no token is stored and no
  request is sent, yet the flag is set.
\<close>

theorem getToken_sets_subscribed:
  "item_isSubscribed (store (fst (getToken w e))) = Some ''true''
   \<and> checkIfSubscribed (fst (getToken w e))
   \<and> getToken w e = getToken (w\<lparr>store := (store w)\<lparr>item_isSubscribed := Some ''true''\<rparr>\<rparr>) e
   \<and> (truthy (item_fcmToken (store w)) = None \<and> truthy (firebaseToken e) = None \<longrightarrow>
        snd (getToken w e) = [Reject (Bool False)]
        \<and> item_fcmToken (store (fst (getToken w e))) = item_fcmToken (store w)
        \<and> requests (fst (getToken w e)) = requests w)"
proof -
  have flag: "item_isSubscribed (store (fst (getToken w e))) = Some ''true''"
    by (rule getToken_subscribed)
  have none: "truthy (item_fcmToken (store w)) = None \<and> truthy (firebaseToken e) = None \<longrightarrow>
        snd (getToken w e) = [Reject (Bool False)]
        \<and> item_fcmToken (store (fst (getToken w e))) = item_fcmToken (store w)
        \<and> requests (fst (getToken w e)) = requests w"
    by (simp add: getToken_def Let_def emit_def requests_def)
  have before: "getToken w e =
      getToken (w\<lparr>store := (store w)\<lparr>item_isSubscribed := Some ''true''\<rparr>\<rparr>) e"
    by (simp add: getToken_def)
  show ?thesis
    using flag none before by (simp add: checkIfSubscribed_def)
qed

theorem getToken_sets_subscribed_witness:
  "truthy (item_fcmToken (store fresh)) = None \<and> truthy (firebaseToken env_no_token) = None
   \<and> checkIfSubscribed fresh = False
   \<and> snd (getToken fresh env_no_token) = [Reject (Bool False)]
   \<and> checkIfSubscribed (fst (getToken fresh env_no_token)) = True
   \<and> item_fcmToken (store (fst (getToken fresh env_no_token))) = None"
proof -
  have a: "truthy (item_fcmToken (store fresh)) = None"
    by (simp add: fresh_def truthy_def)
  have b: "truthy (firebaseToken env_no_token) = None"
    by (simp add: env_no_token_def truthy_def)
  have c: "checkIfSubscribed fresh = False" "item_fcmToken (store fresh) = None"
    by (simp_all add: fresh_def checkIfSubscribed_def)
  note all = getToken_sets_subscribed [of fresh env_no_token]
  show ?thesis
    using all [THEN conjunct2, THEN conjunct1]
      all [THEN conjunct2, THEN conjunct2, THEN conjunct2] a b c
    by simp
qed

subsection \<open>Token refresh\<close>

text \<open>
  C2 as stated fails: on a fresh instance, where \<^verbatim>\<open>isSubscribed\<close> was never set, a refresh
  with a token that differs from the (empty) cache stores nothing and sends nothing.
\<close>

theorem onTokenRefresh_unsubscribed_counterexample:
  "item_fcmToken (store fresh) \<noteq> Some ''tok2''
   \<and> item_fcmToken (store (onTokenRefresh fresh env1 ''tok2'')) = None
   \<and> requests (onTokenRefresh fresh env1 ''tok2'') = []"
  by (simp add: onTokenRefresh_def fresh_def requests_def)

text \<open>
  C2, amended: the listener acts only while the persisted \<^verbatim>\<open>isSubscribed\<close> flag is \<^verbatim>\<open>'true'\<close>.
  Then, when the new token differs from the cached one, it stores the new token and,
  once the device information is there, adds exactly one event to the trace: the
  \<^verbatim>\<open>PATCH\<close> request to the update endpoint carrying the key, the old and the new token and
  the device information (when the device information cannot be read, the token is
  stored and no request is sent). When the tokens are equal, and whenever the flag is
  not \<^verbatim>\<open>'true'\<close>, nothing changes at all.
\<close>

theorem onTokenRefresh_subscribed:
  "(item_isSubscribed (store w) = Some ''true'' \<and> item_fcmToken (store w) \<noteq> Some new \<longrightarrow>
      item_fcmToken (store (onTokenRefresh w e new)) = Some new
      \<and> item_isSubscribed (store (onTokenRefresh w e new)) = Some ''true''
      \<and> (case getDeviceInfo e of
           Inr info \<Rightarrow>
             trace (onTokenRefresh w e new) =
               trace w @
               [Fetch ''PATCH'' update_url
                  [(''Accept'', Str ''application/json''),
                   (''Content-Type'', Str ''application/json'')]
                  (JSON_stringify
                     (spread [(''apiKey'', get_prop (config w) ''apiKey''),
                              (''oldFcmToken'', str_or_null (item_fcmToken (store w))),
                              (''newFcmToken'', Str new)] info))]
         | Inl err \<Rightarrow> trace (onTokenRefresh w e new) = trace w))
   \<and> (item_isSubscribed (store w) = Some ''true'' \<and> item_fcmToken (store w) = Some new \<longrightarrow>
        onTokenRefresh w e new = w)
   \<and> (item_isSubscribed (store w) \<noteq> Some ''true'' \<longrightarrow> onTokenRefresh w e new = w)"
  by (simp add: onTokenRefresh_def Let_def sendRequest_def emit_def spread_def
      split: sum.splits)

theorem onTokenRefresh_subscribed_witness:
  "item_isSubscribed (store (fst (getToken fresh env1))) = Some ''true''
   \<and> item_fcmToken (store (fst (getToken fresh env1))) = Some ''tok''
   \<and> item_fcmToken (store (onTokenRefresh (fst (getToken fresh env1)) env1 ''tok2'')) =
       Some ''tok2''
   \<and> length (requests (onTokenRefresh (fst (getToken fresh env1)) env1 ''tok2'')) =
       length (requests (fst (getToken fresh env1))) + 1
   \<and> onTokenRefresh (fst (getToken fresh env1)) env1 ''tok'' = fst (getToken fresh env1)"
proof -
  have a: "item_isSubscribed (store (fst (getToken fresh env1))) = Some ''true''"
    by (rule getToken_subscribed)
  have b: "item_fcmToken (store (fst (getToken fresh env1))) = Some ''tok''"
    by (simp add: getToken_def fresh_def env1_def truthy_def getDeviceInfo_def device1_def
        sendRequest_def Let_def console_log_def emit_def)
  have d: "getDeviceInfo env1 =
      Inr [(''deviceOs'', Str ''android''), (''deviceUniqueId'', Str ''u1''),
           (''deviceBrand'', Str ''acme''), (''deviceModel'', Str ''m1''),
           (''deviceId'', Str ''d1''), (''deviceOsVersion'', Str ''10'')]"
    by (simp add: getDeviceInfo_def env1_def device1_def)
  show ?thesis
    using onTokenRefresh_subscribed [of "fst (getToken fresh env1)" "''tok2''" env1]
      onTokenRefresh_subscribed [of "fst (getToken fresh env1)" "''tok''" env1] a b
    by (simp add: d requests_def)
qed

subsection \<open>Configuration checks\<close>

text \<open>
  C4: when a check of \<^verbatim>\<open>checkParams\<close> fails (the key is not a string, the email is rejected,
  or the callback is not a function), the promise is rejected with a string, and
  execution goes on past the \<^verbatim>\<open>reject\<close>: the merged configuration is kept in \<^verbatim>\<open>#config\<close> and
  written to the store, and \<^verbatim>\<open>resolve\<close> is called on the same promise afterwards, as the
  last of at least two settling calls.
\<close>

theorem checkParams_continues_after_reject:
  "merged = spread (config w) cfg \<Longrightarrow>
   typeof (get_prop merged ''apiKey'') \<noteq> ''string''
     \<or> email_rejected (get_prop merged ''userEmail'')
     \<or> typeof (get_prop merged ''callbackAfterTap'') \<noteq> ''function'' \<Longrightarrow>
     (\<exists>reason. state_of (snd (checkParams w cfg)) = Rejected (Str reason))
   \<and> last (snd (checkParams w cfg)) = Resolve Null
   \<and> 2 \<le> length (snd (checkParams w cfg))
   \<and> item_config (store (fst (checkParams w cfg))) = Some (JSON_stringify merged)
   \<and> config (fst (checkParams w cfg)) = merged"
  by (auto simp add: checkParams_def Let_def)

theorem checkParams_continues_after_reject_witness:
  "typeof (get_prop (spread (config fresh) [(''apiKey'', Num 5)]) ''apiKey'') = ''number''
   \<and> item_config (store fresh) = None
   \<and> state_of (snd (checkParams fresh [(''apiKey'', Num 5)])) =
       Rejected (Str ''Key must be string'')
   \<and> last (snd (checkParams fresh [(''apiKey'', Num 5)])) = Resolve Null
   \<and> item_config (store (fst (checkParams fresh [(''apiKey'', Num 5)]))) =
       Some [(''apiKey'', Num 5), (''userEmail'', Str []), (''bundleId'', Str [])]"
proof -
  have m: "spread (config fresh) [(''apiKey'', Num 5)] =
      [(''apiKey'', Num 5), (''userEmail'', Str []), (''bundleId'', Str []),
       (''callbackAfterTap'', Fun 0)]"
    by (simp add: spread_def fresh_def default_config_def)
  have k: "typeof (get_prop (spread (config fresh) [(''apiKey'', Num 5)]) ''apiKey'') = ''number''"
    by (simp add: m get_prop_def)
  have s: "state_of (snd (checkParams fresh [(''apiKey'', Num 5)])) =
      Rejected (Str ''Key must be string'')"
    by (simp add: checkParams_def Let_def m get_prop_def)
  have n: "item_config (store fresh) = None"
    by (simp add: fresh_def)
  show ?thesis
    using checkParams_continues_after_reject [OF refl, of fresh "[(''apiKey'', Num 5)]"] k s n
    by (simp add: m JSON_stringify_def)
qed

text \<open>\<^verbatim>\<open>setEmail\<close> has the same shape: a rejected email is stored all the same.\<close>

lemma setEmail_continues_after_reject:
  "email_rejected email \<Longrightarrow>
     snd (setEmail w email) = [Reject (Str ''Email must be valid''), Resolve Null]
   \<and> config (fst (setEmail w email)) = set_prop (config w) ''userEmail'' email
   \<and> item_config (store (fst (setEmail w email))) =
       Some (JSON_stringify (set_prop (config w) ''userEmail'' email))"
  by (simp add: setEmail_def Let_def)

subsection \<open>What each step leaves alone\<close>

lemma emit_fields:
  "store (emit ev w) = store w" "config (emit ev w) = config w"
  "trace (emit ev w) = trace w @ [ev]"
  by (simp_all add: emit_def)

lemma emit_observed:
  "requests (emit ev w) = requests w @ (if is_fetch ev then [ev] else [])"
  "callbacks (emit ev w) = callbacks w @ (if is_callback ev then [ev] else [])"
  "displays (emit ev w) = displays w @ (if is_display ev then [ev] else [])"
  "attached (emit ev w) = attached w @ (if is_attach ev then [ev] else [])"
  by (simp_all add: emit_def requests_def callbacks_def displays_def attached_def)

lemma console_log_fields:
  "store (console_log a w) = store w" "config (console_log a w) = config w"
  "trace (console_log a w) = trace w @ [Console a]"
  "requests (console_log a w) = requests w" "callbacks (console_log a w) = callbacks w"
  "displays (console_log a w) = displays w" "attached (console_log a w) = attached w"
  by (simp_all add: console_log_def emit_fields emit_observed)

lemma sendRequest_fields:
  "store (fst (sendRequest w e url h b m)) = store w"
  "config (fst (sendRequest w e url h b m)) = config w"
  "trace (fst (sendRequest w e url h b m)) =
     trace w @ [Fetch m url (spread [(''Accept'', Str ''application/json''),
                                      (''Content-Type'', Str ''application/json'')] h)
                  (JSON_stringify b)]"
  "callbacks (fst (sendRequest w e url h b m)) = callbacks w"
  "displays (fst (sendRequest w e url h b m)) = displays w"
  "attached (fst (sendRequest w e url h b m)) = attached w"
  by (simp_all add: sendRequest_def emit_fields emit_observed)

lemma sendLog_post_frame:
  "store (sendLog_post w e b) = store w" "config (sendLog_post w e b) = config w"
  "callbacks (sendLog_post w e b) = callbacks w"
  "attached (sendLog_post w e b) = attached w"
  "displays (sendLog_post w e b) = displays w"
  "requests (sendLog_post w e b) =
     requests w @ [Fetch ''POST'' log_url [(''Accept'', Str ''application/json''),
                                           (''Content-Type'', Str ''application/json'')]
                     (JSON_stringify b)]"
  by (simp_all add: sendLog_post_def Let_def console_log_fields sendRequest_def
      emit_fields emit_observed spread_def split: pstate.splits)

lemma sendLog_frame:
  "store (sendLog w e t n c) = store w" "config (sendLog w e t n c) = config w"
  "callbacks (sendLog w e t n c) = callbacks w"
  "attached (sendLog w e t n c) = attached w"
  "displays (sendLog w e t n c) = displays w"
  by (simp_all add: sendLog_def sendLog_post_frame split: option.splits)

lemma createAndroidChannel_frame:
  "store (fst (createAndroidChannel w e b)) = store w"
  "config (fst (createAndroidChannel w e b)) = config w"
  "callbacks (fst (createAndroidChannel w e b)) = callbacks w"
  "requests (fst (createAndroidChannel w e b)) = requests w"
  "attached (fst (createAndroidChannel w e b)) = attached w"
  "displays (fst (createAndroidChannel w e b)) = displays w"
  by (simp_all add: createAndroidChannel_def Let_def console_log_fields emit_fields
      emit_observed)

lemma createAndroidChannel_elsewhere:
  "platformOS e \<noteq> ''android'' \<Longrightarrow> platformOS e \<noteq> ''ios'' \<Longrightarrow>
   createAndroidChannel w e b = (w, [])"
  by (simp add: createAndroidChannel_def)

lemma checkIfOpenedByNotification_frame:
  "store (fst (checkIfOpenedByNotification w e)) = store w"
  "config (fst (checkIfOpenedByNotification w e)) = config w"
  "attached (fst (checkIfOpenedByNotification w e)) = attached w"
  by (simp_all add: checkIfOpenedByNotification_def Let_def console_log_fields emit_fields
      emit_observed sendLog_frame
      split: option.splits jsval.splits)

lemma createListeners_frame:
  "store (createListeners w) = store w" "config (createListeners w) = config w"
  "callbacks (createListeners w) = callbacks w" "requests (createListeners w) = requests w"
  by (simp_all add: createListeners_def emit_fields emit_observed)

lemma checkParams_fields:
  "config (fst (checkParams w cfg)) = spread (config w) cfg"
  "item_config (store (fst (checkParams w cfg))) = Some (JSON_stringify (spread (config w) cfg))"
  "item_fcmToken (store (fst (checkParams w cfg))) = item_fcmToken (store w)"
  "item_isSubscribed (store (fst (checkParams w cfg))) = item_isSubscribed (store w)"
  "trace (fst (checkParams w cfg)) = trace w"
  by (simp_all add: checkParams_def Let_def)

lemma checkParams_passes:
  "typeof (get_prop (spread (config w) cfg) ''apiKey'') = ''string'' \<Longrightarrow>
   \<not> email_rejected (get_prop (spread (config w) cfg) ''userEmail'') \<Longrightarrow>
   typeof (get_prop (spread (config w) cfg) ''callbackAfterTap'') = ''function'' \<Longrightarrow>
   snd (checkParams w cfg) = [Resolve Null]"
  by (simp add: checkParams_def Let_def)

lemma init_rejected:
  "state_of (snd (checkParams w cfg)) = Rejected r \<Longrightarrow>
   init w e cfg = (fst (checkParams w cfg), [Reject r])"
  by (simp add: init_def and_then_def)

lemma init_passed:
  "snd (checkParams w cfg) = [Resolve Null] \<Longrightarrow>
   init w e cfg =
     and_then
       (and_then
         (and_then (checkIfOpenedByNotification (fst (checkParams w cfg)) e)
           (\<lambda>w2. createAndroidChannel w2 e True))
         (\<lambda>w3. (createListeners w3, [Resolve Undefined])))
       (\<lambda>w4. (w4, [Resolve Undefined]))"
  by (simp add: init_def and_then_def)

lemma and_then_frame:
  "(\<And>w. f (fst (k w)) = f w) \<Longrightarrow> f (fst (and_then p k)) = f (fst p)"
  by (simp add: and_then_def split: pstate.splits)

lemma init_store: "store (fst (init w e cfg)) = store (fst (checkParams w cfg))"
  unfolding init_def
  by (simp add: and_then_frame checkIfOpenedByNotification_frame
      createAndroidChannel_frame createListeners_frame)

lemma init_config: "config (fst (init w e cfg)) = config (fst (checkParams w cfg))"
  unfolding init_def
  by (simp add: and_then_frame checkIfOpenedByNotification_frame
      createAndroidChannel_frame createListeners_frame)

lemma keys_set_prop:
  "map fst (set_prop ob k v) = (if k \<in> set (map fst ob) then map fst ob else map fst ob @ [k])"
  by (induction ob) (force simp add: image_iff)+

lemma distinct_set_prop: "distinct (map fst ob) \<Longrightarrow> distinct (map fst (set_prop ob k v))"
  by (simp add: keys_set_prop)

lemma distinct_spread: "distinct (map fst a) \<Longrightarrow> distinct (map fst (spread a b))"
  unfolding spread_def
  by (induction b arbitrary: a) (auto simp add: distinct_set_prop)

lemma stringify_drops_function:
  "distinct (map fst ob) \<Longrightarrow> typeof (get_prop ob k) = ''function'' \<Longrightarrow>
   (k, v) \<notin> set (JSON_stringify ob)"
proof
  assume d: "distinct (map fst ob)" and f: "typeof (get_prop ob k) = ''function''"
    and m: "(k, v) \<in> set (JSON_stringify ob)"
  from m have "(k, v) \<in> set ob" and nf: "typeof v \<noteq> ''function''"
    by (simp_all add: JSON_stringify_def)
  with d have "map_of ob k = Some v"
    by simp
  then have "get_prop ob k = v"
    by (simp add: get_prop_def)
  with f nf show False
    by simp
qed

subsection \<open>Validation in \<^verbatim>\<open>init\<close>\<close>

text \<open>
  C5: \<^verbatim>\<open>init(config)\<close> merges the supplied fields over the current \<^verbatim>\<open>#config\<close>, which on a
  fresh instance holds the defaults. It rejects the returned promise with a string when
  the key is not a string, when the email is a non-empty string that fails the regular
  expression (or is not a string at all), and when the callback is not a function: every
  failed check rejects, with the string of the first check that fails in the order key,
  email, callback. When all checks pass, the merged configuration is in the store in its
  JSON form, which has no \<^verbatim>\<open>callbackAfterTap\<close>.
  (An object has each key once: \<open>distinct (map fst (config w))\<close>.)
\<close>

theorem init_validates_config:
  "merged = spread (config w) cfg \<Longrightarrow> distinct (map fst (config w)) \<Longrightarrow>
     config (fst (init w e cfg)) = merged
   \<and> config fresh = default_config
   \<and> (typeof (get_prop merged ''apiKey'') \<noteq> ''string'' \<longrightarrow>
        state_of (snd (init w e cfg)) = Rejected (Str ''Key must be string''))
   \<and> (typeof (get_prop merged ''apiKey'') = ''string''
        \<and> (\<exists>s. get_prop merged ''userEmail'' = Str s \<and> s \<noteq> [] \<and> \<not> validateEmail s) \<longrightarrow>
        state_of (snd (init w e cfg)) = Rejected (Str ''Email must be valid''))
   \<and> (typeof (get_prop merged ''apiKey'') = ''string''
        \<and> \<not> email_rejected (get_prop merged ''userEmail'')
        \<and> typeof (get_prop merged ''callbackAfterTap'') \<noteq> ''function'' \<longrightarrow>
        state_of (snd (init w e cfg)) = Rejected (Str ''Callback must be function''))
   \<and> (typeof (get_prop merged ''apiKey'') = ''string''
        \<and> email_rejected (get_prop merged ''userEmail'') \<longrightarrow>
        state_of (snd (init w e cfg)) = Rejected (Str ''Email must be valid''))
   \<and> (typeof (get_prop merged ''apiKey'') \<noteq> ''string''
        \<or> email_rejected (get_prop merged ''userEmail'')
        \<or> typeof (get_prop merged ''callbackAfterTap'') \<noteq> ''function'' \<longrightarrow>
        (\<exists>reason. state_of (snd (init w e cfg)) = Rejected (Str reason)))
   \<and> (typeof (get_prop merged ''apiKey'') = ''string''
        \<and> \<not> email_rejected (get_prop merged ''userEmail'')
        \<and> typeof (get_prop merged ''callbackAfterTap'') = ''function'' \<longrightarrow>
        item_config (store (fst (init w e cfg))) = Some (JSON_stringify merged)
        \<and> (\<forall>v. (''callbackAfterTap'', v) \<notin> set (JSON_stringify merged)))"
proof -
  assume m: "merged = spread (config w) cfg" and d: "distinct (map fst (config w))"
  have c: "config (fst (init w e cfg)) = merged"
    by (simp add: m init_config checkParams_fields)
  have k: "typeof (get_prop merged ''apiKey'') \<noteq> ''string'' \<longrightarrow>
        state_of (snd (init w e cfg)) = Rejected (Str ''Key must be string'')"
  proof
    assume "typeof (get_prop merged ''apiKey'') \<noteq> ''string''"
    then have "state_of (snd (checkParams w cfg)) = Rejected (Str ''Key must be string'')"
      by (simp add: m checkParams_def Let_def)
    then show "state_of (snd (init w e cfg)) = Rejected (Str ''Key must be string'')"
      by (simp add: init_rejected)
  qed
  have em: "typeof (get_prop merged ''apiKey'') = ''string''
        \<and> (\<exists>s. get_prop merged ''userEmail'' = Str s \<and> s \<noteq> [] \<and> \<not> validateEmail s) \<longrightarrow>
        state_of (snd (init w e cfg)) = Rejected (Str ''Email must be valid'')"
  proof
    assume "typeof (get_prop merged ''apiKey'') = ''string''
        \<and> (\<exists>s. get_prop merged ''userEmail'' = Str s \<and> s \<noteq> [] \<and> \<not> validateEmail s)"
    then have "state_of (snd (checkParams w cfg)) = Rejected (Str ''Email must be valid'')"
      by (auto simp add: m checkParams_def Let_def email_rejected_def)
    then show "state_of (snd (init w e cfg)) = Rejected (Str ''Email must be valid'')"
      by (simp add: init_rejected)
  qed
  have cb: "typeof (get_prop merged ''apiKey'') = ''string''
        \<and> \<not> email_rejected (get_prop merged ''userEmail'')
        \<and> typeof (get_prop merged ''callbackAfterTap'') \<noteq> ''function'' \<longrightarrow>
        state_of (snd (init w e cfg)) = Rejected (Str ''Callback must be function'')"
  proof
    assume "typeof (get_prop merged ''apiKey'') = ''string''
        \<and> \<not> email_rejected (get_prop merged ''userEmail'')
        \<and> typeof (get_prop merged ''callbackAfterTap'') \<noteq> ''function''"
    then have "state_of (snd (checkParams w cfg)) = Rejected (Str ''Callback must be function'')"
      by (simp add: m checkParams_def Let_def)
    then show "state_of (snd (init w e cfg)) = Rejected (Str ''Callback must be function'')"
      by (simp add: init_rejected)
  qed
  have st: "item_config (store (fst (init w e cfg))) = Some (JSON_stringify merged)"
    by (simp add: m init_store checkParams_fields)
  have dm: "distinct (map fst merged)"
    unfolding m using d by (rule distinct_spread)
  have nf: "typeof (get_prop merged ''callbackAfterTap'') = ''function'' \<longrightarrow>
       (\<forall>v. (''callbackAfterTap'', v) \<notin> set (JSON_stringify merged))"
    using stringify_drops_function [OF dm] by blast
  have em2: "typeof (get_prop merged ''apiKey'') = ''string''
        \<and> email_rejected (get_prop merged ''userEmail'') \<longrightarrow>
        state_of (snd (init w e cfg)) = Rejected (Str ''Email must be valid'')"
  proof
    assume "typeof (get_prop merged ''apiKey'') = ''string''
        \<and> email_rejected (get_prop merged ''userEmail'')"
    then have "state_of (snd (checkParams w cfg)) = Rejected (Str ''Email must be valid'')"
      by (simp add: m checkParams_def Let_def)
    then show "state_of (snd (init w e cfg)) = Rejected (Str ''Email must be valid'')"
      by (simp add: init_rejected)
  qed
  have any: "typeof (get_prop merged ''apiKey'') \<noteq> ''string''
        \<or> email_rejected (get_prop merged ''userEmail'')
        \<or> typeof (get_prop merged ''callbackAfterTap'') \<noteq> ''function'' \<longrightarrow>
        (\<exists>reason. state_of (snd (init w e cfg)) = Rejected (Str reason))"
  proof
    assume "typeof (get_prop merged ''apiKey'') \<noteq> ''string''
        \<or> email_rejected (get_prop merged ''userEmail'')
        \<or> typeof (get_prop merged ''callbackAfterTap'') \<noteq> ''function''"
    then have "\<exists>reason. state_of (snd (checkParams w cfg)) = Rejected (Str reason)"
      by (auto simp add: m checkParams_def Let_def)
    then show "\<exists>reason. state_of (snd (init w e cfg)) = Rejected (Str reason)"
      by (auto simp add: init_rejected)
  qed
  show ?thesis
    using c k em cb em2 any st nf by (simp add: fresh_def)
qed

lemma validateEmail_good: "validateEmail ''a@b.com''"
  by code_simp

lemma validateEmail_bad: "\<not> validateEmail ''a@@b''"
  by code_simp

theorem init_validates_config_witness:
  "state_of (snd (init fresh env1 [(''apiKey'', Num 5)])) = Rejected (Str ''Key must be string'')
   \<and> state_of (snd (init fresh env1 [(''apiKey'', Str ''key''), (''userEmail'', Str ''a@@b'')])) =
       Rejected (Str ''Email must be valid'')
   \<and> state_of (snd (init fresh env1 [(''apiKey'', Str ''key''), (''callbackAfterTap'', Null)])) =
       Rejected (Str ''Callback must be function'')
   \<and> state_of (snd (init fresh env1
         [(''apiKey'', Str ''key''), (''userEmail'', Num 3), (''callbackAfterTap'', Null)])) =
       Rejected (Str ''Email must be valid'')
   \<and> item_config (store (fst (init fresh env1
         [(''apiKey'', Str ''key''), (''userEmail'', Str ''a@b.com''),
          (''callbackAfterTap'', Fun 1)]))) =
       Some [(''apiKey'', Str ''key''), (''userEmail'', Str ''a@b.com''), (''bundleId'', Str [])]"
proof -
  have d: "distinct (map fst (config fresh))"
    by (simp add: fresh_def default_config_def)
  have c: "config fresh = default_config"
    by (simp add: fresh_def)
  have e: "email_rejected (Str ''a@b.com'') = False" "email_rejected (Str []) = False"
    "email_rejected (Str ''a@@b'') = True" "email_rejected (Num 3) = True"
    by (simp_all add: email_rejected_def validateEmail_good validateEmail_bad)
  show ?thesis
    using init_validates_config [OF refl d, of env1 "[(''apiKey'', Num 5)]"]
      init_validates_config [OF refl d, of env1
        "[(''apiKey'', Str ''key''), (''userEmail'', Str ''a@@b'')]"]
      init_validates_config [OF refl d, of env1
        "[(''apiKey'', Str ''key''), (''callbackAfterTap'', Null)]"]
      init_validates_config [OF refl d, of env1
        "[(''apiKey'', Str ''key''), (''userEmail'', Num 3), (''callbackAfterTap'', Null)]"]
      init_validates_config [OF refl d, of env1
        "[(''apiKey'', Str ''key''), (''userEmail'', Str ''a@b.com''),
          (''callbackAfterTap'', Fun 1)]"]
    by (simp add: c default_config_def spread_def get_prop_def e validateEmail_bad
        JSON_stringify_def)
qed

subsection \<open>Other platforms\<close>

lemma checkIfOpenedByNotification_settle:
  "snd (checkIfOpenedByNotification w e) = [] \<or>
   snd (checkIfOpenedByNotification w e) = [Resolve Undefined]"
  by (simp add: checkIfOpenedByNotification_def Let_def split: option.splits jsval.splits)

lemma init_elsewhere:
  assumes "platformOS e \<noteq> ''android''" and "platformOS e \<noteq> ''ios''"
    and "snd (checkParams w cfg) = [Resolve Null]"
  shows "init w e cfg = (fst (checkIfOpenedByNotification (fst (checkParams w cfg)) e), [])"
proof -
  let ?p = "checkIfOpenedByNotification (fst (checkParams w cfg)) e"
  have a: "and_then ?p (\<lambda>w2. createAndroidChannel w2 e True) = (fst ?p, [])"
    using checkIfOpenedByNotification_settle [of "fst (checkParams w cfg)" e] assms(1,2)
    by (auto simp add: and_then_def createAndroidChannel_elsewhere)
  show ?thesis
    by (simp add: init_passed [OF assms(3)] a) (simp add: and_then_def)
qed

lemma checkParams_rejects:
  "snd (checkParams w cfg) = [Resolve Null] \<or>
   (\<exists>reason. state_of (snd (checkParams w cfg)) = Rejected (Str reason))"
  by (simp add: checkParams_def Let_def)

lemma init_attached_elsewhere:
  assumes "platformOS e \<noteq> ''android''" and "platformOS e \<noteq> ''ios''"
  shows "attached (fst (init w e cfg)) = attached w"
proof -
  have t: "attached (fst (checkParams w cfg)) = attached w"
    by (simp add: attached_def checkParams_fields)
  from checkParams_rejects [of w cfg] show ?thesis
  proof
    assume "snd (checkParams w cfg) = [Resolve Null]"
    then show ?thesis
      by (simp add: init_elsewhere [OF assms] checkIfOpenedByNotification_frame t)
  next
    assume "\<exists>reason. state_of (snd (checkParams w cfg)) = Rejected (Str reason)"
    then show ?thesis
      by (auto simp add: init_rejected t)
  qed
qed

text \<open>
  C10 as stated fails in its last part: on a platform that is neither Android nor iOS an
  \<^verbatim>\<open>init\<close> call whose configuration fails a check does settle its promise, by rejecting it.
\<close>

theorem init_rejects_elsewhere_counterexample:
  "platformOS env_web = ''web''
   \<and> state_of (snd (init fresh env_web [(''apiKey'', Num 5)])) =
       Rejected (Str ''Key must be string'')"
  by (simp add: env_web_def env1_def init_def and_then_def checkParams_def Let_def
      fresh_def default_config_def spread_def get_prop_def)

text \<open>
  C10, amended: on a platform that is neither \<^verbatim>\<open>'android'\<close> nor \<^verbatim>\<open>'ios'\<close> no branch of
  \<^verbatim>\<open>createAndroidChannel\<close> settles its promise. An \<^verbatim>\<open>init\<close> call there never resolves and never
  attaches a listener. When the configuration passes the checks its promise stays
  pending for ever; when a check fails it is rejected with that check's reason.
\<close>

theorem init_never_resolves_elsewhere:
  "platformOS e \<noteq> ''android'' \<Longrightarrow> platformOS e \<noteq> ''ios'' \<Longrightarrow>
     createAndroidChannel w e b = (w, [])
   \<and> state_of (snd (createAndroidChannel w e b)) = Pending
   \<and> (\<forall>v. state_of (snd (init w e cfg)) \<noteq> Fulfilled v)
   \<and> attached (fst (init w e cfg)) = attached w
   \<and> (snd (checkParams w cfg) = [Resolve Null] \<longrightarrow> state_of (snd (init w e cfg)) = Pending)
   \<and> (\<forall>r. state_of (snd (checkParams w cfg)) = Rejected r \<longrightarrow>
        state_of (snd (init w e cfg)) = Rejected r)"
proof -
  assume p: "platformOS e \<noteq> ''android''" "platformOS e \<noteq> ''ios''"
  have a: "createAndroidChannel w e b = (w, [])"
    using p by (rule createAndroidChannel_elsewhere)
  have pend: "snd (checkParams w cfg) = [Resolve Null] \<longrightarrow> state_of (snd (init w e cfg)) = Pending"
    by (simp add: init_elsewhere [OF p])
  have rej: "\<forall>r. state_of (snd (checkParams w cfg)) = Rejected r \<longrightarrow>
        state_of (snd (init w e cfg)) = Rejected r"
    by (simp add: init_rejected)
  have nof: "\<forall>v. state_of (snd (init w e cfg)) \<noteq> Fulfilled v"
    using checkParams_rejects [of w cfg] pend rej by auto
  show ?thesis
    using a pend rej nof init_attached_elsewhere [OF p] by simp
qed

theorem init_never_resolves_elsewhere_witness:
  "platformOS env_web \<noteq> ''android'' \<and> platformOS env_web \<noteq> ''ios''
   \<and> snd (checkParams fresh [(''apiKey'', Str ''key'')]) = [Resolve Null]
   \<and> state_of (snd (init fresh env_web [(''apiKey'', Str ''key'')])) = Pending
   \<and> attached (fst (init fresh env_web [(''apiKey'', Str ''key'')])) = []"
proof -
  have p: "platformOS env_web \<noteq> ''android''" "platformOS env_web \<noteq> ''ios''"
    by (simp_all add: env_web_def env1_def)
  have c: "snd (checkParams fresh [(''apiKey'', Str ''key'')]) = [Resolve Null]"
    by (simp add: checkParams_def Let_def fresh_def default_config_def spread_def get_prop_def
        email_rejected_def)
  have a: "attached fresh = []"
    by (simp add: attached_def fresh_def)
  show ?thesis
    using init_never_resolves_elsewhere [OF p, where w = fresh and cfg = "[(''apiKey'', Str ''key'')]"]
      p c a
    by simp
qed

subsection \<open>Unsubscribing\<close>

lemma store_update_observed:
  "requests (w\<lparr>store := s\<rparr>) = requests w" "callbacks (w\<lparr>store := s\<rparr>) = callbacks w"
  "displays (w\<lparr>store := s\<rparr>) = displays w" "attached (w\<lparr>store := s\<rparr>) = attached w"
  by (simp_all add: requests_def callbacks_def displays_def attached_def)

text \<open>
  C6 as stated fails when \<^verbatim>\<open>deleteToken()\<close> is rejected: with no token in the cache the
  promise of \<^verbatim>\<open>unsubscribe\<close> is then rejected with the library's reason, and the flag that
  \<^verbatim>\<open>getToken\<close> set stays \<^verbatim>\<open>'true'\<close>.
\<close>

theorem unsubscribe_delete_fails_counterexample:
  "item_fcmToken (store (fst (getToken fresh env_no_token))) = None
   \<and> state_of (snd (unsubscribe (fst (getToken fresh env_no_token)) env_delete_fails)) =
       Rejected (Str ''SERVICE_NOT_AVAILABLE'')
   \<and> item_isSubscribed
        (store (fst (unsubscribe (fst (getToken fresh env_no_token)) env_delete_fails))) =
       Some ''true''"
  by (simp add: unsubscribe_def getToken_def Let_def fresh_def env_delete_fails_def
      env_no_token_def env1_def truthy_def emit_def)

text \<open>
  C6, amended: with no token in the cache, \<^verbatim>\<open>unsubscribe\<close> never sends a request. When
  \<^verbatim>\<open>deleteToken()\<close> fulfils, the promise resolves, the only effects are the call of
  \<^verbatim>\<open>deleteToken\<close> and the logged message, the cache stays empty and the flag is \<^verbatim>\<open>'false'\<close>.
  When \<^verbatim>\<open>deleteToken()\<close> is rejected, the promise is rejected with the same reason and the
  store is untouched.
\<close>

theorem unsubscribe_without_token:
  "truthy (item_fcmToken (store w)) = None \<Longrightarrow>
     requests (fst (unsubscribe w e)) = requests w
   \<and> (tokenDeleted e = Inr () \<longrightarrow>
        snd (unsubscribe w e) = [Resolve Undefined]
        \<and> trace (fst (unsubscribe w e)) =
            trace w @ [DeleteToken,
              Console [LVal (Str ''fcmToken not found in local storage when unsubscribing'')]]
        \<and> item_isSubscribed (store (fst (unsubscribe w e))) = Some ''false''
        \<and> item_fcmToken (store (fst (unsubscribe w e))) = None)
   \<and> (\<forall>err. tokenDeleted e = Inl err \<longrightarrow>
        snd (unsubscribe w e) = [Reject err]
        \<and> store (fst (unsubscribe w e)) = store w)"
  by (simp add: unsubscribe_def Let_def emit_fields emit_observed console_log_fields
      store_update_observed split: sum.splits)

theorem unsubscribe_without_token_witness:
  "truthy (item_fcmToken (store (fst (getToken fresh env_no_token)))) = None
   \<and> tokenDeleted env_no_token = Inr ()
   \<and> snd (unsubscribe (fst (getToken fresh env_no_token)) env_no_token) = [Resolve Undefined]
   \<and> requests (fst (unsubscribe (fst (getToken fresh env_no_token)) env_no_token)) = []
   \<and> item_isSubscribed (store (fst (unsubscribe (fst (getToken fresh env_no_token)) env_no_token)))
       = Some ''false''"
proof -
  have g: "getToken fresh env_no_token =
      (\<lparr>config = default_config,
        store = \<lparr>item_config = None, item_fcmToken = None, item_isSubscribed = Some ''true''\<rparr>,
        trace = [FirebaseGetToken]\<rparr>, [Reject (Bool False)])"
    by (simp add: getToken_def Let_def fresh_def env_no_token_def env1_def truthy_def emit_def)
  have t: "truthy (item_fcmToken (store (fst (getToken fresh env_no_token)))) = None"
    by (simp add: g truthy_def)
  have d: "tokenDeleted env_no_token = Inr ()"
    by (simp add: env_no_token_def env1_def)
  have r: "requests (fst (getToken fresh env_no_token)) = []"
    by (simp add: g requests_def)
  show ?thesis
    using unsubscribe_without_token [OF t, of env_no_token] t d r by simp
qed

subsection \<open>Background messages\<close>

lemma displayLocalNotification_displays:
  "n_data n = Some d \<Longrightarrow>
   displays (displayLocalNotification w e n dataOnly) =
     displays w @
     (if platformOS e = ''ios'' \<or> (platformOS e = ''android'' \<and> channelCreated e)
      then [DisplayNotification
              \<lparr>ln_show_in_foreground = True,
               ln_notificationId = (if dataOnly then n_messageId n else n_notificationId n),
               ln_title = (if dataOnly then get_prop d ''title'' else n_title n),
               ln_body = (if dataOnly then get_prop d ''body'' else n_body n),
               ln_data = n_raw_data n,
               ln_sound = get_prop d ''sound'',
               ln_bigPicture = get_prop d ''image'',
               ln_channelId = ''push'',
               ln_smallIcon = ''ic_notification'',
               ln_color = ''#00FF00'',
               ln_priority = ''Max'',
               ln_vibrate = 1000\<rparr>]
      else [])"
  by (simp add: displayLocalNotification_def createAndroidChannel_def Let_def
      console_log_fields emit_observed sendLog_frame split: sum.splits)

text \<open>
  C8: for a message with a \<^verbatim>\<open>data\<close> field, \<^verbatim>\<open>backgroundMessaging\<close> is the call of
  \<^verbatim>\<open>displayLocalNotification\<close> with \<^verbatim>\<open>dataOnly\<close> true on the message with \<^verbatim>\<open>_data\<close> set to its
  \<^verbatim>\<open>data\<close>. Where the channel promise fulfils (iOS, or Android with the channel created)
  exactly one notification is handed to the library, and its title and body are the
  \<^verbatim>\<open>title\<close> and \<^verbatim>\<open>body\<close> of the message's data; otherwise none is.
\<close>

theorem backgroundMessaging_data_only:
  "n_data message = Some d \<Longrightarrow>
     backgroundMessaging w e message =
       (displayLocalNotification (console_log [LNote message] w) e
          (message\<lparr>n_raw_data := Some d\<rparr>) True,
        [Resolve Undefined])
   \<and> displays (fst (backgroundMessaging w e message)) =
       displays w @
       (if platformOS e = ''ios'' \<or> (platformOS e = ''android'' \<and> channelCreated e)
        then [DisplayNotification
                \<lparr>ln_show_in_foreground = True,
                 ln_notificationId = n_messageId message,
                 ln_title = get_prop d ''title'',
                 ln_body = get_prop d ''body'',
                 ln_data = Some d,
                 ln_sound = get_prop d ''sound'',
                 ln_bigPicture = get_prop d ''image'',
                 ln_channelId = ''push'',
                 ln_smallIcon = ''ic_notification'',
                 ln_color = ''#00FF00'',
                 ln_priority = ''Max'',
                 ln_vibrate = 1000\<rparr>]
        else [])"
proof -
  assume d: "n_data message = Some d"
  have call: "backgroundMessaging w e message =
       (displayLocalNotification (console_log [LNote message] w) e
          (message\<lparr>n_raw_data := Some d\<rparr>) True,
        [Resolve Undefined])"
    by (simp add: backgroundMessaging_def Let_def d)
  have d': "n_data (message\<lparr>n_raw_data := Some d\<rparr>) = Some d"
    by (simp add: d)
  show ?thesis
    by (simp add: call displayLocalNotification_displays [OF d'] console_log_fields)
qed

theorem backgroundMessaging_data_only_witness:
  "n_data message1 = Some [(''title'', Str ''Sale''), (''body'', Str ''Today only'')]
   \<and> displays (fst (backgroundMessaging fresh env1 message1)) =
       [DisplayNotification
          \<lparr>ln_show_in_foreground = True,
           ln_notificationId = Str ''m1'',
           ln_title = Str ''Sale'',
           ln_body = Str ''Today only'',
           ln_data = Some [(''title'', Str ''Sale''), (''body'', Str ''Today only'')],
           ln_sound = Undefined,
           ln_bigPicture = Undefined,
           ln_channelId = ''push'',
           ln_smallIcon = ''ic_notification'',
           ln_color = ''#00FF00'',
           ln_priority = ''Max'',
           ln_vibrate = 1000\<rparr>]"
proof -
  have d: "n_data message1 = Some [(''title'', Str ''Sale''), (''body'', Str ''Today only'')]"
    by (simp add: message1_def)
  have f: "displays fresh = []"
    by (simp add: displays_def fresh_def)
  have m: "n_messageId message1 = Str ''m1''"
    by (simp add: message1_def)
  have e: "platformOS env1 = ''android''" "channelCreated env1"
    by (simp_all add: env1_def)
  show ?thesis
    using backgroundMessaging_data_only [OF d, of fresh env1, THEN conjunct2] d
    by (simp add: f m e get_prop_def)
qed

subsection \<open>Cold start by a notification\<close>

lemma sendLog_requests:
  "n_raw_data n = Some rd \<Longrightarrow> n_data n = Some d \<Longrightarrow> item_config (store w) = Some lc \<Longrightarrow>
   requests (sendLog w e t n c) =
     requests w @
     [Fetch ''POST'' log_url
        [(''Accept'', Str ''application/json''), (''Content-Type'', Str ''application/json'')]
        (JSON_stringify (sendLog_body w e t rd d lc c))]"
  by (simp add: sendLog_def sendLog_post_frame)

lemma sendLog_body_tap:
  "sendLog_body w e ''tap'' rd d lc [(''initial'', Bool True)] =
     [(''apiKey'', get_prop lc ''apiKey''),
      (''fcmToken'', str_or_null (item_fcmToken (store w))),
      (''event'', Str ''tap''),
      (''sendId'', if typeof (get_prop rd ''sendId'') \<noteq> ''undefined''
                   then get_prop rd ''sendId'' else Num 0),
      (''tag'', if typeof (get_prop d ''tag'') \<noteq> ''undefined''
                then get_prop d ''tag'' else Str []),
      (''os'', Str (platformOS e)),
      (''initial'', Bool True),
      (''tappedAt'', Num (nowMs e div 1000))]"
  by (simp add: sendLog_body_def Let_def spread_def)

lemma checkIfOpenedByNotification_opened:
  "initialNotification e = Some opened \<Longrightarrow> get_prop (config w) ''callbackAfterTap'' = Fun f \<Longrightarrow>
   checkIfOpenedByNotification w e =
     (sendLog
        (emit (Callback f (n_data (no_notification opened)))
           (emit (RemoveDelivered (n_notificationId (no_notification opened)))
              (console_log
                 [LVal (Str ''App is opened because of notification interaction'')] w)))
        e ''tap'' (no_notification opened) [(''initial'', Bool True)],
      [Resolve Undefined])"
  by (simp add: checkIfOpenedByNotification_def Let_def emit_fields console_log_fields)

lemma init_callbacks:
  "callbacks (fst (init w e cfg)) =
     (case state_of (snd (checkParams w cfg)) of
        Fulfilled v \<Rightarrow> callbacks (fst (checkIfOpenedByNotification (fst (checkParams w cfg)) e))
      | _ \<Rightarrow> callbacks (fst (checkParams w cfg)))"
  unfolding init_def
  by (simp add: and_then_frame [where f = callbacks] createAndroidChannel_frame
      createListeners_frame)
    (simp add: and_then_def split: pstate.splits)

lemma init_requests:
  "requests (fst (init w e cfg)) =
     (case state_of (snd (checkParams w cfg)) of
        Fulfilled v \<Rightarrow> requests (fst (checkIfOpenedByNotification (fst (checkParams w cfg)) e))
      | _ \<Rightarrow> requests (fst (checkParams w cfg)))"
  unfolding init_def
  by (simp add: and_then_frame [where f = requests] createAndroidChannel_frame
      createListeners_frame)
    (simp add: and_then_def split: pstate.splits)

lemma cold_start_passing:
  "merged = spread (config w) cfg \<Longrightarrow>
   typeof (get_prop merged ''apiKey'') = ''string'' \<Longrightarrow>
   \<not> email_rejected (get_prop merged ''userEmail'') \<Longrightarrow>
   get_prop merged ''callbackAfterTap'' = Fun f \<Longrightarrow>
   initialNotification e = Some opened \<Longrightarrow> n = no_notification opened \<Longrightarrow>
     callbacks (fst (init w e cfg)) = callbacks w @ [Callback f (n_data n)]
   \<and> (\<forall>rd d. n_raw_data n = Some rd \<and> n_data n = Some d \<longrightarrow>
        requests (fst (init w e cfg)) =
          requests w @
          [Fetch ''POST'' log_url
             [(''Accept'', Str ''application/json''),
              (''Content-Type'', Str ''application/json'')]
             (JSON_stringify
                [(''apiKey'', get_prop (JSON_stringify merged) ''apiKey''),
                 (''fcmToken'', str_or_null (item_fcmToken (store w))),
                 (''event'', Str ''tap''),
                 (''sendId'', if typeof (get_prop rd ''sendId'') \<noteq> ''undefined''
                              then get_prop rd ''sendId'' else Num 0),
                 (''tag'', if typeof (get_prop d ''tag'') \<noteq> ''undefined''
                           then get_prop d ''tag'' else Str []),
                 (''os'', Str (platformOS e)),
                 (''initial'', Bool True),
                 (''tappedAt'', Num (nowMs e div 1000))])])"
proof -
  assume m: "merged = spread (config w) cfg"
    and k: "typeof (get_prop merged ''apiKey'') = ''string''"
    and em: "\<not> email_rejected (get_prop merged ''userEmail'')"
    and cb: "get_prop merged ''callbackAfterTap'' = Fun f"
    and op: "initialNotification e = Some opened" and n: "n = no_notification opened"
  let ?w1 = "fst (checkParams w cfg)"
  have pass: "snd (checkParams w cfg) = [Resolve Null]"
    using k em cb by (simp add: m checkParams_passes)
  have cf: "get_prop (config ?w1) ''callbackAfterTap'' = Fun f"
    using cb by (simp add: m checkParams_fields)
  note opened = checkIfOpenedByNotification_opened [OF op cf]
  have ob: "callbacks ?w1 = callbacks w" "requests ?w1 = requests w"
    by (simp_all add: callbacks_def requests_def checkParams_fields)
  have c: "callbacks (fst (init w e cfg)) = callbacks w @ [Callback f (n_data n)]"
    by (simp add: init_callbacks pass opened sendLog_frame emit_observed console_log_fields ob n)
  have r: "\<forall>rd d. n_raw_data n = Some rd \<and> n_data n = Some d \<longrightarrow>
        requests (fst (init w e cfg)) =
          requests w @
          [Fetch ''POST'' log_url
             [(''Accept'', Str ''application/json''),
              (''Content-Type'', Str ''application/json'')]
             (JSON_stringify
                [(''apiKey'', get_prop (JSON_stringify merged) ''apiKey''),
                 (''fcmToken'', str_or_null (item_fcmToken (store w))),
                 (''event'', Str ''tap''),
                 (''sendId'', if typeof (get_prop rd ''sendId'') \<noteq> ''undefined''
                              then get_prop rd ''sendId'' else Num 0),
                 (''tag'', if typeof (get_prop d ''tag'') \<noteq> ''undefined''
                           then get_prop d ''tag'' else Str []),
                 (''os'', Str (platformOS e)),
                 (''initial'', Bool True),
                 (''tappedAt'', Num (nowMs e div 1000))])]"
  proof (intro allI impI)
    fix rd d
    assume "n_raw_data n = Some rd \<and> n_data n = Some d"
    then have rd: "n_raw_data (no_notification opened) = Some rd"
      and d: "n_data (no_notification opened) = Some d"
      by (simp_all add: n)
    let ?w3 = "emit (Callback f (n_data (no_notification opened)))
           (emit (RemoveDelivered (n_notificationId (no_notification opened)))
              (console_log
                 [LVal (Str ''App is opened because of notification interaction'')] ?w1))"
    have lc: "item_config (store ?w3) = Some (JSON_stringify merged)"
      by (simp add: emit_fields console_log_fields checkParams_fields m)
    have tk: "item_fcmToken (store ?w3) = item_fcmToken (store w)"
      by (simp add: emit_fields console_log_fields checkParams_fields)
    have rq: "requests ?w3 = requests w"
      by (simp add: emit_observed console_log_fields ob)
    show "requests (fst (init w e cfg)) =
          requests w @
          [Fetch ''POST'' log_url
             [(''Accept'', Str ''application/json''),
              (''Content-Type'', Str ''application/json'')]
             (JSON_stringify
                [(''apiKey'', get_prop (JSON_stringify merged) ''apiKey''),
                 (''fcmToken'', str_or_null (item_fcmToken (store w))),
                 (''event'', Str ''tap''),
                 (''sendId'', if typeof (get_prop rd ''sendId'') \<noteq> ''undefined''
                              then get_prop rd ''sendId'' else Num 0),
                 (''tag'', if typeof (get_prop d ''tag'') \<noteq> ''undefined''
                           then get_prop d ''tag'' else Str []),
                 (''os'', Str (platformOS e)),
                 (''initial'', Bool True),
                 (''tappedAt'', Num (nowMs e div 1000))])]"
      by (simp add: init_requests pass opened sendLog_requests [OF rd d lc] sendLog_body_tap
          tk rq)
  qed
  show ?thesis
    using c r by simp
qed

text \<open>A failed check stops \<^verbatim>\<open>init\<close> before the cold-start check: nothing is done to the outside.\<close>

lemma init_failing:
  assumes "typeof (get_prop (spread (config w) cfg) ''apiKey'') \<noteq> ''string''
     \<or> email_rejected (get_prop (spread (config w) cfg) ''userEmail'')
     \<or> typeof (get_prop (spread (config w) cfg) ''callbackAfterTap'') \<noteq> ''function''"
  shows "\<exists>reason. init w e cfg = (fst (checkParams w cfg), [Reject (Str reason)])"
proof -
  from assms have "\<exists>reason. state_of (snd (checkParams w cfg)) = Rejected (Str reason)"
    by (auto simp add: checkParams_def Let_def)
  then show ?thesis
    by (auto simp add: init_rejected)
qed

text \<open>
  C3 as stated fails. The callback is called with the notification's data, not with
  \<^verbatim>\<open>{initial: true}\<close>, which goes to \<^verbatim>\<open>sendLog\<close> only. When the configuration fails a check,
  \<^verbatim>\<open>init\<close> stops before the cold-start check, so nothing is called or sent. And the module
  keeps no record that the check has run: a second \<^verbatim>\<open>init\<close> call in the same process, to
  which the library reports the same notification, calls the callback a second time.
\<close>

theorem cold_start_callback_counterexample:
  "initialNotification env_cold = Some \<lparr>no_action = Str ''default'', no_notification = note1\<rparr>
   \<and> callbacks (fst (init fresh env_cold cfg1)) =
       [Callback 1 (Some [(''sendId'', Num 7), (''tag'', Str ''promo'')])]
   \<and> Callback 1 (Some [(''initial'', Bool True)]) \<notin> set (trace (fst (init fresh env_cold cfg1)))
   \<and> state_of (snd (init fresh env_cold cfg1)) = Fulfilled Undefined
   \<and> callbacks (fst (init fresh env_cold [(''apiKey'', Num 5)])) = []
   \<and> requests (fst (init fresh env_cold [(''apiKey'', Num 5)])) = []
   \<and> callbacks (fst (init (fst (init fresh env_cold cfg1)) env_cold cfg1)) =
       [Callback 1 (Some [(''sendId'', Num 7), (''tag'', Str ''promo'')]),
        Callback 1 (Some [(''sendId'', Num 7), (''tag'', Str ''promo'')])]"
  by code_simp

text \<open>
  C3, amended: when the app was started by a notification tap, every \<^verbatim>\<open>init\<close> call whose
  configuration passes the checks runs the cold-start check once: it calls the configured
  callback exactly once, with the notification's data, and, when the notification has
  its data fields, sends exactly one request, the \<^verbatim>\<open>'tap'\<close> event to the log endpoint whose
  body carries \<^verbatim>\<open>initial: true\<close>. Every \<^verbatim>\<open>init\<close> call whose configuration fails a check is
  rejected with a string before the cold-start check: it calls no callback, sends no
  request and adds nothing to the trace. This holds from any state, so it holds for each
  \<^verbatim>\<open>init\<close> call of a process.
\<close>

theorem cold_start_tap:
  "merged = spread (config w) cfg \<Longrightarrow>
   initialNotification e = Some opened \<Longrightarrow> n = no_notification opened \<Longrightarrow>
     (typeof (get_prop merged ''apiKey'') = ''string''
        \<and> \<not> email_rejected (get_prop merged ''userEmail'')
        \<and> get_prop merged ''callbackAfterTap'' = Fun f \<longrightarrow>
        callbacks (fst (init w e cfg)) = callbacks w @ [Callback f (n_data n)]
        \<and> (\<forall>rd d. n_raw_data n = Some rd \<and> n_data n = Some d \<longrightarrow>
             requests (fst (init w e cfg)) =
             requests w @
             [Fetch ''POST'' log_url
               [(''Accept'', Str ''application/json''),
                (''Content-Type'', Str ''application/json'')]
               (JSON_stringify
                  [(''apiKey'', get_prop (JSON_stringify merged) ''apiKey''),
                   (''fcmToken'', str_or_null (item_fcmToken (store w))),
                   (''event'', Str ''tap''),
                   (''sendId'', if typeof (get_prop rd ''sendId'') \<noteq> ''undefined''
                                then get_prop rd ''sendId'' else Num 0),
                   (''tag'', if typeof (get_prop d ''tag'') \<noteq> ''undefined''
                             then get_prop d ''tag'' else Str []),
                   (''os'', Str (platformOS e)),
                   (''initial'', Bool True),
                   (''tappedAt'', Num (nowMs e div 1000))])]))
   \<and> (typeof (get_prop merged ''apiKey'') \<noteq> ''string''
        \<or> email_rejected (get_prop merged ''userEmail'')
        \<or> typeof (get_prop merged ''callbackAfterTap'') \<noteq> ''function'' \<longrightarrow>
        (\<exists>reason. state_of (snd (init w e cfg)) = Rejected (Str reason))
        \<and> trace (fst (init w e cfg)) = trace w
        \<and> callbacks (fst (init w e cfg)) = callbacks w
        \<and> requests (fst (init w e cfg)) = requests w)"
proof (intro conjI impI)
  assume m: "merged = spread (config w) cfg"
    and op: "initialNotification e = Some opened" and n: "n = no_notification opened"
  {
    assume p: "typeof (get_prop merged ''apiKey'') = ''string''
        \<and> \<not> email_rejected (get_prop merged ''userEmail'')
        \<and> get_prop merged ''callbackAfterTap'' = Fun f"
    note pass = cold_start_passing [OF m p [THEN conjunct1] p [THEN conjunct2, THEN conjunct1]
        p [THEN conjunct2, THEN conjunct2] op n]
    show "callbacks (fst (init w e cfg)) = callbacks w @ [Callback f (n_data n)]"
      by (rule pass [THEN conjunct1])
    show "\<forall>rd d. n_raw_data n = Some rd \<and> n_data n = Some d \<longrightarrow>
             requests (fst (init w e cfg)) =
             requests w @
             [Fetch ''POST'' log_url
               [(''Accept'', Str ''application/json''),
                (''Content-Type'', Str ''application/json'')]
               (JSON_stringify
                  [(''apiKey'', get_prop (JSON_stringify merged) ''apiKey''),
                   (''fcmToken'', str_or_null (item_fcmToken (store w))),
                   (''event'', Str ''tap''),
                   (''sendId'', if typeof (get_prop rd ''sendId'') \<noteq> ''undefined''
                                then get_prop rd ''sendId'' else Num 0),
                   (''tag'', if typeof (get_prop d ''tag'') \<noteq> ''undefined''
                             then get_prop d ''tag'' else Str []),
                   (''os'', Str (platformOS e)),
                   (''initial'', Bool True),
                   (''tappedAt'', Num (nowMs e div 1000))])]"
      by (rule pass [THEN conjunct2])
  }
  {
    assume f: "typeof (get_prop merged ''apiKey'') \<noteq> ''string''
        \<or> email_rejected (get_prop merged ''userEmail'')
        \<or> typeof (get_prop merged ''callbackAfterTap'') \<noteq> ''function''"
    from f obtain reason where
      r: "init w e cfg = (fst (checkParams w cfg), [Reject (Str reason)])"
      unfolding m using init_failing [of w cfg e] by blast
    show "\<exists>reason. state_of (snd (init w e cfg)) = Rejected (Str reason)"
      by (simp add: r)
    show "trace (fst (init w e cfg)) = trace w"
      by (simp add: r checkParams_fields)
    show "callbacks (fst (init w e cfg)) = callbacks w"
      by (simp add: r callbacks_def checkParams_fields)
    show "requests (fst (init w e cfg)) = requests w"
      by (simp add: r requests_def checkParams_fields)
  }
qed

theorem cold_start_tap_witness:
  "initialNotification env_cold = Some \<lparr>no_action = Str ''default'', no_notification = note1\<rparr>
   \<and> callbacks (fst (init fresh env_cold cfg1)) =
       [Callback 1 (Some [(''sendId'', Num 7), (''tag'', Str ''promo'')])]
   \<and> requests (fst (init fresh env_cold cfg1)) =
       [Fetch ''POST'' log_url
          [(''Accept'', Str ''application/json''), (''Content-Type'', Str ''application/json'')]
          [(''apiKey'', Str ''key''), (''fcmToken'', Null), (''event'', Str ''tap''),
           (''sendId'', Num 7), (''tag'', Str ''promo''), (''os'', Str ''android''),
           (''initial'', Bool True), (''tappedAt'', Num 5)]]
   \<and> typeof (get_prop (spread (config fresh) [(''apiKey'', Num 5)]) ''apiKey'') = ''number''
   \<and> callbacks (fst (init fresh env_cold [(''apiKey'', Num 5)])) = []
   \<and> requests (fst (init fresh env_cold [(''apiKey'', Num 5)])) = []"
proof -
  have m: "spread (config fresh) cfg1 =
      [(''apiKey'', Str ''key''), (''userEmail'', Str []), (''bundleId'', Str []),
       (''callbackAfterTap'', Fun 1)]"
    by (simp add: spread_def fresh_def default_config_def cfg1_def)
  have p: "typeof (get_prop (spread (config fresh) cfg1) ''apiKey'') = ''string''
      \<and> \<not> email_rejected (get_prop (spread (config fresh) cfg1) ''userEmail'')
      \<and> get_prop (spread (config fresh) cfg1) ''callbackAfterTap'' = Fun 1"
    by (simp add: m get_prop_def email_rejected_def)
  have k5: "typeof (get_prop (spread (config fresh) [(''apiKey'', Num 5)]) ''apiKey'') = ''number''"
    by (simp add: spread_def fresh_def default_config_def get_prop_def)
  have op: "initialNotification env_cold =
      Some \<lparr>no_action = Str ''default'', no_notification = note1\<rparr>"
    by (simp add: env_cold_def env1_def)
  have n: "note1 = no_notification \<lparr>no_action = Str ''default'', no_notification = note1\<rparr>"
    by simp
  have d: "n_data note1 = Some [(''sendId'', Num 7), (''tag'', Str ''promo'')]"
    "n_raw_data note1 = Some [(''sendId'', Num 7), (''tag'', Str ''promo'')]"
    by (simp_all add: note1_def)
  have f: "callbacks fresh = []" "requests fresh = []" "item_fcmToken (store fresh) = None"
    by (simp_all add: callbacks_def requests_def fresh_def)
  have e: "platformOS env_cold = ''android''" "nowMs env_cold = 5000"
    by (simp_all add: env_cold_def env1_def)
  note passing = cold_start_tap [OF refl op n, where w = fresh and cfg = cfg1 and f = 1,
      THEN conjunct1, THEN mp, OF p]
  have failing: "callbacks (fst (init fresh env_cold [(''apiKey'', Num 5)])) = callbacks fresh
      \<and> requests (fst (init fresh env_cold [(''apiKey'', Num 5)])) = requests fresh"
    using cold_start_tap [OF refl op n, where w = fresh and cfg = "[(''apiKey'', Num 5)]"
        and f = 1, THEN conjunct2] k5
    by simp
  show ?thesis
    using passing failing op k5
    by (simp add: d f e m JSON_stringify_def get_prop_def str_or_null_def)
qed

end
